theory Spec2Isabelle
  imports Main "HOL-Library.Sublist" "HOL-Library.AList"
begin

section \<open>JavaScript values\<close>

text \<open>
  A JavaScript string is a sequence of UTF-16 code units. Here a \<open>char\<close> is a code unit
  below 256, so the strings of this theory are the strings of Latin-1 text (every
  compact JWS is one); strings with other code units are not represented.

  Token payloads are untyped JSON trees, as \<^verbatim>\<open>JSON.parse\<close> builds them. An object is
  the list of its own properties in the order a \<^verbatim>\<open>for (k in o)\<close> loop visits them, with
  distinct keys. A number is represented by the string JavaScript prints for it
  (\<open>5\<close>, \<open>-0.5\<close>, \<open>1e+21\<close>): negative zero prints as \<open>0\<close> and \<^verbatim>\<open>JSON.parse\<close> yields no
  \<open>NaN\<close>, so a number is falsy exactly when it prints as \<open>0\<close>. \<open>undefined\<close> is \<open>None\<close>
  of \<open>json option\<close>.
\<close>

datatype json =
    JNull
  | JBool bool
  | JNum string
  | JStr string
  | JArr "json list"
  | JObj "(string \<times> json) list"

text \<open>
  A thrown exception. \<open>Error\<close> is \<^verbatim>\<open>throw new Error(msg)\<close> of this repository;
  \<open>TypeError\<close> and \<open>SyntaxError\<close> are raised by the engine or by a library, with their
  message (for the engine, in the wording of V8 as shipped with Node.js 12 and 14; no
  statement below depends on that wording).

  \<open>Beyond\<close> is not an exception. It marks a run that has left what this theory
  describes, and names the reason; it is the assignment of the key \<open>__proto__\<close> to an
  object literal, which replaces the prototype of the object instead of storing a
  property, after which what a loop over the properties visits depends on how the
  classes were compiled. No handler catches \<open>Beyond\<close>: it surfaces unchanged in every
  result, and no statement is made about the program there.
\<close>

datatype error = Error string | TypeError string | SyntaxError string | Beyond string

fun message :: "error \<Rightarrow> string" where
  "message (Error m) = m"
| "message (TypeError m) = m"
| "message (SyntaxError m) = m"
| "message (Beyond m) = m"

fun beyond :: "error \<Rightarrow> bool" where
  "beyond (Beyond m) = True"
| "beyond _ = False"

text \<open>The truthiness of a value, as \<^verbatim>\<open>if (v)\<close> tests it.\<close>

fun truthy :: "json option \<Rightarrow> bool" where
  "truthy None = False"
| "truthy (Some JNull) = False"
| "truthy (Some (JBool b)) = b"
| "truthy (Some (JNum n)) = (n \<noteq> ''0'')"
| "truthy (Some (JStr s)) = (s \<noteq> [])"
| "truthy (Some (JArr _)) = True"
| "truthy (Some (JObj _)) = True"

text \<open>
  Reading a property \<^verbatim>\<open>v.k\<close> for the key names this code reads by name (none of them
  is a member of a prototype): an object looks the key up, every other value has no such
  property; reading a property of \<open>null\<close> throws.
\<close>

fun field :: "json \<Rightarrow> string \<Rightarrow> json option" where
  "field (JObj kvs) k = map_of kvs k"
| "field _ k = None"

definition getProp :: "json \<Rightarrow> string \<Rightarrow> error + json option" where
  "getProp v k =
     (if v = JNull
      then Inl (TypeError (''Cannot read property '' @ [CHR 0x27] @ k @ [CHR 0x27] @ '' of null''))
      else Inr (field v k))"

text \<open>Optional chaining \<^verbatim>\<open>v?.k\<close>: \<open>undefined\<close> and \<open>null\<close> give \<open>undefined\<close>.\<close>

fun optChain :: "json option \<Rightarrow> string \<Rightarrow> json option" where
  "optChain None k = None"
| "optChain (Some v) k = field v k"

text \<open>The own enumerable properties a \<^verbatim>\<open>for (k in v)\<close> loop visits, with their values:
  the properties of an object, the indices of an array or of a string.\<close>

fun digits :: "nat \<Rightarrow> string" where
  "digits n = (if n < 10 then [''0123456789'' ! n]
               else digits (n div 10) @ [''0123456789'' ! (n mod 10)])"

fun forIn :: "json \<Rightarrow> (string \<times> json) list" where
  "forIn (JObj kvs) = kvs"
| "forIn (JArr xs) = zip (map digits [0 ..< length xs]) xs"
| "forIn (JStr s) = zip (map digits [0 ..< length s]) (map (\<lambda>c. JStr [c]) s)"
| "forIn _ = []"

text \<open>
  The conversion of a value to a string, as a template literal \<^verbatim>\<open>`${v}`\<close> and a
  computed property key \<^verbatim>\<open>o[v]\<close> perform it. An object prints as \<open>[object Object]\<close>
  through the method it inherits; an own property \<open>toString\<close> of a parsed object is never
  callable and neither is what \<open>valueOf\<close> then offers, so the conversion throws. An array
  joins the conversions of its elements with commas, \<open>null\<close> counting as empty.
\<close>

fun join :: "string \<Rightarrow> string list \<Rightarrow> string" where
  "join sep [] = []"
| "join sep [x] = x"
| "join sep (x # y # ys) = x @ sep @ join sep (y # ys)"

fun toString :: "json \<Rightarrow> error + string"
  and elements :: "json list \<Rightarrow> error + string list" where
  "toString JNull = Inr ''null''"
| "toString (JBool b) = Inr (if b then ''true'' else ''false'')"
| "toString (JNum n) = Inr n"
| "toString (JStr s) = Inr s"
| "toString (JArr xs) =
     (case elements xs of Inl err \<Rightarrow> Inl err | Inr ss \<Rightarrow> Inr (join '','' ss))"
| "toString (JObj kvs) =
     (if map_of kvs ''toString'' \<noteq> None
      then Inl (TypeError ''Cannot convert object to primitive value'')
      else Inr ''[object Object]'')"
| "elements [] = Inr []"
| "elements (x # xs) =
     (case (if x = JNull then Inr [] else toString x) of
        Inl err \<Rightarrow> Inl err
      | Inr s \<Rightarrow> (case elements xs of Inl err \<Rightarrow> Inl err | Inr ss \<Rightarrow> Inr (s # ss)))"

fun template :: "json option \<Rightarrow> error + string" where
  "template None = Inr ''undefined''"
| "template (Some v) = toString v"

text \<open>
  The own properties of an object literal under assignment, \<^verbatim>\<open>o[k] = v\<close>. A key that
  is an array index (the decimal numeral of a number below \<open>2^32 - 1\<close>) is enumerated
  before every other key, in ascending order; the other keys follow in the order of
  their creation; an existing key keeps its place. The key \<open>__proto__\<close> is not a
  property (see \<open>Beyond\<close>).
\<close>

definition arrayIndex :: "string \<Rightarrow> nat option" where
  "arrayIndex k =
     (if k \<noteq> [] \<and> list_all (\<lambda>c. c \<in> set ''0123456789'') k \<and> (k = ''0'' \<or> hd k \<noteq> CHR ''0'')
         \<and> length k \<le> 10
         \<and> foldl (\<lambda>n c. 10 * n + (of_char c - 48)) 0 k < (4294967295 :: nat)
      then Some (foldl (\<lambda>n c. 10 * n + (of_char c - 48)) 0 k)
      else None)"

fun insertIndex :: "nat \<Rightarrow> string \<Rightarrow> 'a \<Rightarrow> (string \<times> 'a) list \<Rightarrow> (string \<times> 'a) list" where
  "insertIndex n k v [] = [(k, v)]"
| "insertIndex n k v ((k', v') # rest) =
     (case arrayIndex k' of
        None \<Rightarrow> (k, v) # (k', v') # rest
      | Some n' \<Rightarrow>
          if n' < n then (k', v') # insertIndex n k v rest else (k, v) # (k', v') # rest)"

definition put :: "string \<Rightarrow> 'a \<Rightarrow> (string \<times> 'a) list \<Rightarrow> (string \<times> 'a) list" where
  "put k v m =
     (if map_of m k \<noteq> None then AList.update k v m
      else (case arrayIndex k of None \<Rightarrow> m @ [(k, v)] | Some n \<Rightarrow> insertIndex n k v m))"

definition assign :: "string \<Rightarrow> 'a \<Rightarrow> (string \<times> 'a) list \<Rightarrow> error + (string \<times> 'a) list" where
  "assign k v m =
     (if k = ''__proto__'' then Inl (Beyond ''assignment to __proto__'') else Inr (put k v m))"

text \<open>\<^verbatim>\<open>s.split(c)\<close> for a one-character separator: never empty, \<open>''''\<close> gives \<open>['''']\<close>.\<close>

fun split :: "char \<Rightarrow> string \<Rightarrow> string list" where
  "split c [] = [[]]"
| "split c (x # xs) =
     (if x = c then [] # split c xs
      else (case split c xs of [] \<Rightarrow> [[x]] | p # ps \<Rightarrow> (x # p) # ps))"

text \<open>
  \<^verbatim>\<open>s.trim()\<close> strips white space and line terminators from both ends. Of the code
  units below 256 these are tab, line feed, vertical tab, form feed, carriage return,
  space and the no-break space.
\<close>

definition isWhiteSpace :: "char \<Rightarrow> bool" where
  "isWhiteSpace c =
     (c \<in> set [CHR 0x09, CHR 0x0A, CHR 0x0B, CHR 0x0C, CHR 0x0D, CHR 0x20, CHR 0xA0])"

definition trim :: "string \<Rightarrow> string" where
  "trim s = rev (dropWhile isWhiteSpace (rev (dropWhile isWhiteSpace s)))"

text \<open>\<^verbatim>\<open>s.includes(t)\<close>: \<open>t\<close> occurs in \<open>s\<close> as a contiguous run.\<close>

fun js_includes :: "string \<Rightarrow> string \<Rightarrow> bool" where
  "js_includes [] t = (t = [])"
| "js_includes (x # xs) t = (prefix t (x # xs) \<or> js_includes xs t)"

section \<open>ClaimToken\<close>

datatype TokenType =
    selfIssued
  | idToken
  | siopIssuance
  | siopPresentationAttestation
  | siopPresentationExchange
  | verifiablePresentation
  | verifiableCredential
  | verifiablePresentationStatus

text \<open>The string value of each member of the enum.\<close>

fun typeName :: "TokenType \<Rightarrow> string" where
  "typeName selfIssued = ''selfIssued''"
| "typeName idToken = ''idToken''"
| "typeName siopIssuance = ''siopIssuance''"
| "typeName siopPresentationAttestation = ''siopPresentationAttestation''"
| "typeName siopPresentationExchange = ''siopPresentationExchange''"
| "typeName verifiablePresentation = ''verifiablePresentation''"
| "typeName verifiableCredential = ''verifiableCredential''"
| "typeName verifiablePresentationStatus = ''verifiablePresentationStatus''"

definition tokentypeValues :: "TokenType list" where
  "tokentypeValues = [selfIssued, idToken, siopIssuance, siopPresentationAttestation,
     siopPresentationExchange, verifiablePresentation, verifiableCredential,
     verifiablePresentationStatus]"

record ClaimToken =
  type :: TokenType
  rawToken :: string
  tokenHeader :: json
  decodedToken :: json
  configuration :: string

text \<open>
  \<open>VerifiableCredentialConstants\<close> is not among the sources. Modelled from the spec: the
  SIOP issuer sentinel, the reserved attestation key and the two payload keys of the
  SIOP flavours.
\<close>

definition TOKEN_SI_ISS :: string where
  "TOKEN_SI_ISS = ''https://self-issued.me''"

definition CLAIMS_SELFISSUED :: string where
  "CLAIMS_SELFISSUED = ''selfIssued''"

definition ATTESTATIONS :: string where
  "ATTESTATIONS = ''attestations''"

definition PRESENTATION_SUBMISSION :: string where
  "PRESENTATION_SUBMISSION = ''presentation_submission''"

text \<open>
  \<^verbatim>\<open>JSON.parse(base64url.decode(s))\<close> is library code: every function below takes it as
  the parameter \<open>dj\<close>, which returns the parsed value or the exception it throws.
\<close>

type_synonym decoder = "string \<Rightarrow> error + json"

text \<open>\<open>decode\<close>: the header and the payload of a raw token of at least two segments.\<close>

definition decode :: "decoder \<Rightarrow> string \<Rightarrow> error + (json \<times> json)" where
  "decode dj raw =
     (case split CHR ''.'' raw of
        h # p # _ \<Rightarrow>
          (case dj h of
             Inl e \<Rightarrow> Inl e
           | Inr hdr \<Rightarrow> (case dj p of Inl e \<Rightarrow> Inl e | Inr pl \<Rightarrow> Inr (hdr, pl)))
      | _ \<Rightarrow> Inl (Error ''Cannot decode. Invalid input token''))"

text \<open>
  The constructor. The type name must be a value of the enum; a string token is decoded,
  any other value becomes the decoded token as it is.
\<close>

definition ClaimToken_new :: "decoder \<Rightarrow> string \<Rightarrow> json \<Rightarrow> string option \<Rightarrow> error + ClaimToken" where
  "ClaimToken_new dj name token config =
     (case filter (\<lambda>t. typeName t = name) tokentypeValues of
        [] \<Rightarrow> Inl (Error (''Type '' @ [CHR 0x27] @ name @ '' is not supported''))
      | t # _ \<Rightarrow>
          (case token of
             JStr raw \<Rightarrow>
               (case decode dj raw of
                  Inl e \<Rightarrow> Inl e
                | Inr (hdr, pl) \<Rightarrow>
                    Inr \<lparr>type = t, rawToken = raw, tokenHeader = hdr, decodedToken = pl,
                         configuration = (case config of None \<Rightarrow> [] | Some c \<Rightarrow> c)\<rparr>)
           | _ \<Rightarrow>
               Inr \<lparr>type = t, rawToken = [], tokenHeader = JObj [], decodedToken = token,
                    configuration = (case config of None \<Rightarrow> [] | Some c \<Rightarrow> c)\<rparr>))"

text \<open>\<open>getTokenPayload\<close>: the parsed second segment; without one, the decoder is handed
  \<open>undefined\<close> and throws.\<close>

definition getTokenPayload :: "decoder \<Rightarrow> string \<Rightarrow> error + json" where
  "getTokenPayload dj token =
     (case split CHR ''.'' token of
        _ # p # _ \<Rightarrow> dj p
      | _ \<Rightarrow> Inl (TypeError ''Cannot read property toString of undefined''))"

text \<open>\<open>tokenSignature\<close>: a third segment exists and is not blank.\<close>

definition tokenSignature :: "string \<Rightarrow> bool" where
  "tokenSignature token =
     (case split CHR ''.'' token of
        _ # _ # s # _ \<Rightarrow> trim s \<noteq> []
      | _ \<Rightarrow> False)"

text \<open>\<open>create\<close>: classify a raw token by the shape of its payload.\<close>

definition create :: "decoder \<Rightarrow> string \<Rightarrow> error + ClaimToken" where
  "create dj token =
     (case getTokenPayload dj token of
        Inl e \<Rightarrow> Inl e
      | Inr payload \<Rightarrow>
          (case getProp payload ''iss'' of
             Inl e \<Rightarrow> Inl e
           | Inr iss \<Rightarrow>
               if iss = Some (JStr TOKEN_SI_ISS) then
                 (if truthy (field payload ''contract'') then
                    ClaimToken_new dj (typeName siopIssuance) (JStr token) None
                  else if truthy (field payload ''presentation_submission'') then
                    ClaimToken_new dj (typeName siopPresentationExchange) (JStr token) None
                  else if truthy (field payload ''attestations'') then
                    ClaimToken_new dj (typeName siopPresentationAttestation) (JStr token) None
                  else Inl (Error ''SIOP was not recognized.''))
               else if truthy (field payload ''vc'') then
                 ClaimToken_new dj (typeName verifiableCredential) (JStr token) None
               else if truthy (field payload ''vp'') then
                 ClaimToken_new dj (typeName verifiablePresentation) (JStr token) None
               else if tokenSignature token then
                 ClaimToken_new dj (typeName idToken) (JStr token) None
               else ClaimToken_new dj (typeName selfIssued) (JStr token) None))"

text \<open>
  The call sites hand \<open>create\<close> values of type \<open>any\<close>: on anything but a string,
  \<^verbatim>\<open>token.split\<close> is not a function.
\<close>

definition create_untyped :: "decoder \<Rightarrow> json \<Rightarrow> error + ClaimToken" where
  "create_untyped dj v =
     (case v of
        JStr token \<Rightarrow> create dj token
      | _ \<Rightarrow> Inl (TypeError ''token.split is not a function''))"

text \<open>
  A map from string keys to claim tokens, \<^verbatim>\<open>{ [key: string]: ClaimToken }\<close>: the own
  properties of an object literal, filled by assignment.
\<close>

type_synonym tokens = "(string \<times> ClaimToken) list"

text \<open>\<open>getClaimTokensFromAttestations\<close>: the inner loop over a map of raw tokens, then
  the loop over the attestations.\<close>

fun attestationTokens :: "decoder \<Rightarrow> (string \<times> json) list \<Rightarrow> tokens \<Rightarrow> error + tokens" where
  "attestationTokens dj [] decodedTokens = Inr decodedTokens"
| "attestationTokens dj ((tokenKey, v) # rest) decodedTokens =
     (case create_untyped dj v of
        Inl e \<Rightarrow> Inl e
      | Inr t \<Rightarrow>
          (case assign tokenKey t decodedTokens of
             Inl e \<Rightarrow> Inl e
           | Inr decodedTokens' \<Rightarrow> attestationTokens dj rest decodedTokens'))"

fun attestationsLoop :: "decoder \<Rightarrow> (string \<times> json) list \<Rightarrow> tokens \<Rightarrow> error + tokens" where
  "attestationsLoop dj [] decodedTokens = Inr decodedTokens"
| "attestationsLoop dj ((key, token) # rest) decodedTokens =
     (if key = CLAIMS_SELFISSUED then
        (case ClaimToken_new dj (typeName selfIssued) token None of
           Inl e \<Rightarrow> Inl e
         | Inr t \<Rightarrow>
             (case assign CLAIMS_SELFISSUED t decodedTokens of
                Inl e \<Rightarrow> Inl e
              | Inr decodedTokens' \<Rightarrow> attestationsLoop dj rest decodedTokens'))
      else
        (case attestationTokens dj (forIn token) decodedTokens of
           Inl e \<Rightarrow> Inl e
         | Inr decodedTokens' \<Rightarrow> attestationsLoop dj rest decodedTokens'))"

definition getClaimTokensFromAttestations :: "decoder \<Rightarrow> json \<Rightarrow> error + tokens" where
  "getClaimTokensFromAttestations dj attestations = attestationsLoop dj (forIn attestations) []"

text \<open>
  The \<open>jsonpath\<close> library is not part of the repository. The fixed query
  \<^verbatim>\<open>$.presentation_submission.descriptor_map.*\<close> is written out: the children of the
  member \<open>descriptor_map\<close> of the member \<open>presentation_submission\<close>, the elements of an
  array or the values of an object. The query of a descriptor's own \<open>path\<close> is the
  parameter \<open>jq\<close>, from the queried value and the path to the matches or the exception
  the library throws. The payload is an object by its type, \<open>PresentationDefinitionModel\<close>.
\<close>

type_synonym jsonpath = "json \<Rightarrow> json \<Rightarrow> error + json list"

fun jpChildren :: "json \<Rightarrow> json list" where
  "jpChildren (JArr xs) = xs"
| "jpChildren (JObj kvs) = map snd kvs"
| "jpChildren _ = []"

definition descriptorMap :: "json \<Rightarrow> json list" where
  "descriptorMap payload =
     (case field payload ''presentation_submission'' of
        None \<Rightarrow> []
      | Some ps \<Rightarrow> (case field ps ''descriptor_map'' of None \<Rightarrow> [] | Some dm \<Rightarrow> jpChildren dm))"

text \<open>The messages of the exceptions, from the printed id and the printed path.\<close>

definition quote :: string where
  "quote = [CHR 0x27]"

definition msgNoId :: string where
  "msgNoId = ''The SIOP presentation exchange response has descriptor_map without id property''"

definition msgWithId :: "string \<Rightarrow> string" where
  "msgWithId i = ''The SIOP presentation exchange response has descriptor_map with id ''
     @ quote @ i @ quote @ ''.''"

definition msgNoToken :: "string \<Rightarrow> string \<Rightarrow> string" where
  "msgNoToken i path = msgWithId i @ '' This path '' @ quote @ path @ quote
     @ '' did not return a token.''"

definition msgMultiple :: "string \<Rightarrow> string \<Rightarrow> string" where
  "msgMultiple i path = msgWithId i @ '' This path '' @ quote @ path @ quote
     @ '' points to multiple credentails and should only point to one credential.''"

definition msgNoPath :: "string \<Rightarrow> string" where
  "msgNoPath i = msgWithId i @ '' No path property found.''"

text \<open>
  What \<^verbatim>\<open>throw new Error(`... ${item.id} ... ${item.path} ...`)\<close> throws: the error
  with the message, or the exception of printing the id or the path, in this order.
\<close>

definition errorWithId :: "(string \<Rightarrow> string) \<Rightarrow> json \<Rightarrow> error" where
  "errorWithId msg i = (case toString i of Inl err \<Rightarrow> err | Inr si \<Rightarrow> Error (msg si))"

definition errorWithIdPath :: "(string \<Rightarrow> string \<Rightarrow> string) \<Rightarrow> json \<Rightarrow> json \<Rightarrow> error" where
  "errorWithIdPath msg i path =
     (case toString i of
        Inl err \<Rightarrow> err
      | Inr si \<Rightarrow> (case toString path of Inl err \<Rightarrow> err | Inr sp \<Rightarrow> Error (msg si sp)))"

text \<open>The body of the loop over the descriptor map, for one entry: the exception it
  throws or the decoded tokens after it.\<close>

definition descriptorStep :: "decoder \<Rightarrow> jsonpath \<Rightarrow> json \<Rightarrow> json \<Rightarrow> tokens \<Rightarrow> error + tokens" where
  "descriptorStep dj jq payload item decodedTokens =
     (if truthy (Some item) then
        (case field item ''id'' of
           None \<Rightarrow> Inl (Error msgNoId)
         | Some i \<Rightarrow>
             if \<not> truthy (Some i) then Inl (Error msgNoId)
             else
               (case field item ''path'' of
                  None \<Rightarrow> Inl (errorWithId msgNoPath i)
                | Some path \<Rightarrow>
                    if truthy (Some path) then
                      (case jq payload path of
                         Inl e \<Rightarrow> Inl e
                       | Inr tokenFinder \<Rightarrow>
                           if length tokenFinder = 0 then Inl (errorWithIdPath msgNoToken i path)
                           else if length tokenFinder > 1
                           then Inl (errorWithIdPath msgMultiple i path)
                           else
                             (case tokenFinder of
                                JStr foundToken # _ \<Rightarrow>
                                  (case create dj foundToken of
                                     Inl e \<Rightarrow> Inl e
                                   | Inr t \<Rightarrow>
                                       (case toString i of
                                          Inl e \<Rightarrow> Inl e
                                        | Inr k \<Rightarrow> assign k t decodedTokens))
                              | _ \<Rightarrow> Inr decodedTokens))
                    else Inl (errorWithId msgNoPath i)))
      else Inr decodedTokens)"

fun descriptorLoop :: "decoder \<Rightarrow> jsonpath \<Rightarrow> json \<Rightarrow> json list \<Rightarrow> tokens \<Rightarrow> error + tokens" where
  "descriptorLoop dj jq payload [] decodedTokens = Inr decodedTokens"
| "descriptorLoop dj jq payload (item # rest) decodedTokens =
     (case descriptorStep dj jq payload item decodedTokens of
        Inl e \<Rightarrow> Inl e
      | Inr decodedTokens' \<Rightarrow> descriptorLoop dj jq payload rest decodedTokens')"

definition getClaimTokensFromPresentationExchange ::
    "decoder \<Rightarrow> jsonpath \<Rightarrow> json \<Rightarrow> error + tokens" where
  "getClaimTokensFromPresentationExchange dj jq payload =
     descriptorLoop dj jq payload (descriptorMap payload) []"

text \<open>
  Object identity. The fields \<open>_tokenHeader\<close> and \<open>_decodedToken\<close> of an instance hold
  objects, and the getters return those objects themselves, not copies. To say who can
  change them, the instance is also given with a store: a value is a primitive or the
  address of a cell, the instance holds the addresses of its header and of its decoded
  token, and \<open>snapshot\<close> reads the instance as the record used everywhere else.
\<close>

type_synonym addr = nat

type_synonym store = "json list"

datatype ref_value = Prim json | Ref addr

record tokenInstance =
  this_type :: TokenType
  this_rawToken :: string
  this_configuration :: string
  this_decodedToken :: addr
  this_tokenHeader :: addr

definition snapshot :: "tokenInstance \<Rightarrow> store \<Rightarrow> ClaimToken" where
  "snapshot this h =
     \<lparr>type = this_type this, rawToken = this_rawToken this,
      tokenHeader = h ! this_tokenHeader this, decodedToken = h ! this_decodedToken this,
      configuration = this_configuration this\<rparr>"

text \<open>
  The constructor on the store. A string is decoded into two new cells. Any other token
  becomes the decoded token as it is: an object of the caller by its address, so that
  the instance and the caller share it, a primitive in a new cell. The header is then a
  new empty object.
\<close>

definition construct ::
    "decoder \<Rightarrow> string \<Rightarrow> ref_value \<Rightarrow> string option \<Rightarrow> store \<Rightarrow> error + (tokenInstance \<times> store)" where
  "construct dj name token config h =
     (case filter (\<lambda>t. typeName t = name) tokentypeValues of
        [] \<Rightarrow> Inl (Error (''Type '' @ [CHR 0x27] @ name @ '' is not supported''))
      | t # _ \<Rightarrow>
          (case token of
             Prim (JStr raw) \<Rightarrow>
               (case decode dj raw of
                  Inl e \<Rightarrow> Inl e
                | Inr (hdr, pl) \<Rightarrow>
                    Inr (\<lparr>this_type = t, this_rawToken = raw,
                          this_configuration = (case config of None \<Rightarrow> [] | Some c \<Rightarrow> c),
                          this_decodedToken = Suc (length h), this_tokenHeader = length h\<rparr>,
                         h @ [hdr, pl]))
           | Prim v \<Rightarrow>
               Inr (\<lparr>this_type = t, this_rawToken = [],
                     this_configuration = (case config of None \<Rightarrow> [] | Some c \<Rightarrow> c),
                     this_decodedToken = Suc (length h), this_tokenHeader = length h\<rparr>,
                    h @ [JObj [], v])
           | Ref a \<Rightarrow>
               Inr (\<lparr>this_type = t, this_rawToken = [],
                     this_configuration = (case config of None \<Rightarrow> [] | Some c \<Rightarrow> c),
                     this_decodedToken = a, this_tokenHeader = length h\<rparr>,
                    h @ [JObj []])))"

text \<open>The public members of an instance: five getters and the setter of \<open>rawToken\<close>.\<close>

definition get_type :: "tokenInstance \<Rightarrow> TokenType" where
  "get_type this = this_type this"

definition get_configuration :: "tokenInstance \<Rightarrow> string" where
  "get_configuration this = this_configuration this"

definition get_rawToken :: "tokenInstance \<Rightarrow> string" where
  "get_rawToken this = this_rawToken this"

definition set_rawToken :: "string \<Rightarrow> tokenInstance \<Rightarrow> tokenInstance" where
  "set_rawToken v this = this\<lparr>this_rawToken := v\<rparr>"

definition get_tokenHeader :: "tokenInstance \<Rightarrow> addr" where
  "get_tokenHeader this = this_tokenHeader this"

definition get_decodedToken :: "tokenInstance \<Rightarrow> addr" where
  "get_decodedToken this = this_decodedToken this"

text \<open>
  A client of an instance: it calls the public members, and it writes and deletes
  properties of the objects it holds, which are those it passed to the constructor and
  those the getters returned (\<^verbatim>\<open>o[k] = v\<close> and \<^verbatim>\<open>delete o[k]\<close>; a change inside
  a nested value is the write of the changed value to the property that holds it).
  \<open>step\<close> is one action of the client on the instance, the store and the addresses
  held, \<open>run\<close> a sequence of them; \<open>None\<close> is an action the client cannot take or that
  is not described (an address not held, a cell that is not an object, the key
  \<open>__proto__\<close>).
\<close>

datatype action =
    Call_type
  | Call_configuration
  | Call_rawToken
  | Call_set_rawToken string
  | Call_tokenHeader
  | Call_decodedToken
  | Write addr string json
  | Delete addr string

record world =
  self :: tokenInstance
  heap :: store
  held :: "addr list"

fun step :: "action \<Rightarrow> world \<Rightarrow> world option" where
  "step Call_type w = Some w"
| "step Call_configuration w = Some w"
| "step Call_rawToken w = Some w"
| "step (Call_set_rawToken v) w = Some (w\<lparr>self := set_rawToken v (self w)\<rparr>)"
| "step Call_tokenHeader w = Some (w\<lparr>held := get_tokenHeader (self w) # held w\<rparr>)"
| "step Call_decodedToken w = Some (w\<lparr>held := get_decodedToken (self w) # held w\<rparr>)"
| "step (Write a k v) w =
     (if a \<in> set (held w) \<and> a < length (heap w) \<and> k \<noteq> ''__proto__'' then
        (case heap w ! a of
           JObj kvs \<Rightarrow> Some (w\<lparr>heap := (heap w)[a := JObj (put k v kvs)]\<rparr>)
         | _ \<Rightarrow> None)
      else None)"
| "step (Delete a k) w =
     (if a \<in> set (held w) \<and> a < length (heap w) then
        (case heap w ! a of
           JObj kvs \<Rightarrow> Some (w\<lparr>heap := (heap w)[a := JObj (AList.delete k kvs)]\<rparr>)
         | _ \<Rightarrow> None)
      else None)"

fun run :: "action list \<Rightarrow> world \<Rightarrow> world option" where
  "run [] w = Some w"
| "run (a # as) w = (case step a w of None \<Rightarrow> None | Some w' \<Rightarrow> run as w')"

text \<open>The raw token last stored by the setter in a sequence of actions, if any.\<close>

fun lastSet :: "action list \<Rightarrow> string \<Rightarrow> string" where
  "lastSet [] raw = raw"
| "lastSet (Call_set_rawToken v # as) raw = lastSet as v"
| "lastSet (_ # as) raw = lastSet as raw"

text \<open>The addresses of the objects a sequence of actions writes to.\<close>

fun written :: "action list \<Rightarrow> addr list" where
  "written [] = []"
| "written (Write a k v # as) = a # written as"
| "written (Delete a k # as) = a # written as"
| "written (_ # as) = written as"

section \<open>Validation responses and the validation queue\<close>

record IValidationResult =
  vr_did :: "json option"
  vr_contract :: "json option"
  siopJti :: "json option"
  idTokens :: "ClaimToken list option"
  verifiableCredentials :: "tokens option"
  verifiablePresentations :: "tokens option"
  vr_selfIssued :: "ClaimToken option"
  vr_siop :: "ClaimToken option"
  vr_verifiablePresentationStatus :: "(string \<times> json) list option"

record IValidationResponse =
  result :: bool
  status :: nat
  detailedError :: "string option"
  payloadObject :: "json option"
  did :: "string option"
  tokensToValidate :: "tokens option"
  validationResult :: "IValidationResult option"

text \<open>The object literals the code returns: a failure with its status and message, and
  the plain success.\<close>

definition failure :: "nat \<Rightarrow> string option \<Rightarrow> IValidationResponse" where
  "failure st msg = \<lparr>result = False, status = st, detailedError = msg, payloadObject = None,
     did = None, tokensToValidate = None, validationResult = None\<rparr>"

definition success :: IValidationResponse where
  "success = \<lparr>result = True, status = 200, detailedError = None, payloadObject = None,
     did = None, tokensToValidate = None, validationResult = None\<rparr>"

text \<open>
  \<open>ValidationQueue\<close> and \<open>ValidationQueueItem\<close> are not among the sources.
  Modelled from the spec: the queue is the ordered sequence of its items; an item holds
  its id, the raw token, an optional claim token that saves parsing again, and, once
  validated, the response and the type-tagged token. \<open>enqueueToken\<close> and \<open>enqueueItem\<close>
  append an unvalidated item, \<open>getNextToken\<close> finds the first unvalidated item in
  insertion order, \<open>setResult\<close> marks an item validated and stores both results, and
  \<open>getResult\<close> is the first failed response, or a success when no response failed.
\<close>

record ValidationQueueItem =
  item_id :: string
  tokenToValidate :: string
  claimToken :: "ClaimToken option"
  validatedToken :: "ClaimToken option"
  validationResponse :: "IValidationResponse option"
  isValidated :: bool

type_synonym ValidationQueue = "ValidationQueueItem list"

definition ValidationQueueItem_new :: "string \<Rightarrow> ClaimToken \<Rightarrow> ValidationQueueItem" where
  "ValidationQueueItem_new i t = \<lparr>item_id = i, tokenToValidate = rawToken t, claimToken = Some t,
     validatedToken = None, validationResponse = None, isValidated = False\<rparr>"

definition enqueueToken :: "ValidationQueue \<Rightarrow> string \<Rightarrow> string \<Rightarrow> ValidationQueue" where
  "enqueueToken q i raw = q @ [\<lparr>item_id = i, tokenToValidate = raw, claimToken = None,
     validatedToken = None, validationResponse = None, isValidated = False\<rparr>]"

definition enqueueItem :: "ValidationQueue \<Rightarrow> ValidationQueueItem \<Rightarrow> ValidationQueue" where
  "enqueueItem q item = q @ [item]"

fun firstUnvalidated :: "ValidationQueue \<Rightarrow> nat \<Rightarrow> nat option" where
  "firstUnvalidated [] n = None"
| "firstUnvalidated (item # rest) n =
     (if isValidated item then firstUnvalidated rest (Suc n) else Some n)"

definition getNextToken :: "ValidationQueue \<Rightarrow> nat option" where
  "getNextToken q = firstUnvalidated q 0"

definition setResult ::
    "ValidationQueue \<Rightarrow> nat \<Rightarrow> IValidationResponse \<Rightarrow> ClaimToken \<Rightarrow> ValidationQueue" where
  "setResult q n response t =
     (if n < length q
      then q[n := (q ! n)\<lparr>validationResponse := Some response, validatedToken := Some t,
                          isValidated := True\<rparr>]
      else q)"

definition getResult :: "ValidationQueue \<Rightarrow> IValidationResponse" where
  "getResult q =
     (case filter (\<lambda>r. \<not> result r) (List.map_filter validationResponse q) of
        [] \<Rightarrow> success
      | r # _ \<Rightarrow> r)"

section \<open>SiopTokenValidator\<close>

record IExpectedSiop =
  nonce :: "string option"
  state :: "string option"

text \<open>
  One block of \<open>validateReplayProtection\<close>, for the property \<open>name\<close> (\<open>nonce\<close>, then
  \<open>state\<close>): nothing when the expected value is not set (undefined or the empty string)
  or strictly equals the payload's value, the 403 response when it differs. Reading the
  property of a missing payload object throws, and so does the template literal of the
  message when the payload's value cannot be printed.
\<close>

definition replayMessage :: "string \<Rightarrow> string \<Rightarrow> string \<Rightarrow> string" where
  "replayMessage name expected actual =
     ''Expect '' @ name @ '' '' @ quote @ expected @ quote
       @ '' does not match '' @ quote @ actual @ quote @ ''.''"

definition replayBlock ::
    "string \<Rightarrow> string option \<Rightarrow> IValidationResponse \<Rightarrow> error + IValidationResponse option" where
  "replayBlock name expected response =
     (case expected of
        None \<Rightarrow> Inr None
      | Some e \<Rightarrow>
          if e = [] then Inr None
          else
            (case payloadObject response of
               None \<Rightarrow> Inl (TypeError (''Cannot read property '' @ quote @ name @ quote
                          @ '' of undefined''))
             | Some p \<Rightarrow>
                 (case getProp p name of
                    Inl err \<Rightarrow> Inl err
                  | Inr actual \<Rightarrow>
                      if actual \<noteq> Some (JStr e) then
                        (case template actual of
                           Inl err \<Rightarrow> Inl err
                         | Inr shown \<Rightarrow>
                             Inr (Some (failure 403 (Some (replayMessage name e shown)))))
                      else Inr None)))"

definition validateReplayProtection ::
    "IExpectedSiop \<Rightarrow> IValidationResponse \<Rightarrow> error + IValidationResponse" where
  "validateReplayProtection expected response =
     (case replayBlock ''nonce'' (nonce expected) response of
        Inl err \<Rightarrow> Inl err
      | Inr (Some r) \<Rightarrow> Inr r
      | Inr None \<Rightarrow>
          (case replayBlock ''state'' (state expected) response of
             Inl err \<Rightarrow> Inl err
           | Inr (Some r) \<Rightarrow> Inr r
           | Inr None \<Rightarrow> Inr response))"

text \<open>The last step of \<open>getTokens\<close>: every token to validate becomes a queue item, in
  the order of the keys.\<close>

definition enqueueTokens :: "IValidationResponse \<Rightarrow> ValidationQueue \<Rightarrow> ValidationQueue" where
  "enqueueTokens response q =
     (case tokensToValidate response of
        None \<Rightarrow> q
      | Some ts \<Rightarrow> foldl (\<lambda>q' (key, t). enqueueItem q' (ValidationQueueItem_new key t)) q ts)"

text \<open>What the \<open>catch\<close> of an extractor returns: the 403 response with the message of
  the exception, before anything is enqueued.\<close>

definition caught ::
    "error \<Rightarrow> ValidationQueue \<Rightarrow> (error + IValidationResponse) \<times> ValidationQueue" where
  "caught err q =
     (if beyond err then (Inl err, q) else (Inr (failure 403 (Some (message err))), q))"

text \<open>
  \<open>getTokens\<close>: the flavour is read from the payload, and the tokens the extractor of
  that flavour returns are stored in the response and enqueued.
  \<open>TokenType.siop\<close> is not a member of the enum: the third flavour extracts nothing.
\<close>

definition getTokens ::
    "decoder \<Rightarrow> jsonpath \<Rightarrow> IValidationResponse \<Rightarrow> ValidationQueue
      \<Rightarrow> (error + IValidationResponse) \<times> ValidationQueue" where
  "getTokens dj jq response q =
     (case payloadObject response of
        None \<Rightarrow> (Inl (TypeError (''Cannot read property '' @ quote @ ATTESTATIONS @ quote
                   @ '' of undefined'')), q)
      | Some p \<Rightarrow>
          (case getProp p ATTESTATIONS of
             Inl err \<Rightarrow> (Inl err, q)
           | Inr attestations \<Rightarrow>
               if truthy attestations then
                 (case getClaimTokensFromAttestations dj
                         (case attestations of Some a \<Rightarrow> a | None \<Rightarrow> JNull) of
                    Inl err \<Rightarrow> caught err q
                  | Inr ts \<Rightarrow>
                      (Inr (response\<lparr>tokensToValidate := Some ts\<rparr>),
                       enqueueTokens (response\<lparr>tokensToValidate := Some ts\<rparr>) q))
               else if truthy (field p PRESENTATION_SUBMISSION) then
                 (case getClaimTokensFromPresentationExchange dj jq p of
                    Inl err \<Rightarrow> caught err q
                  | Inr ts \<Rightarrow>
                      (Inr (response\<lparr>tokensToValidate := Some ts\<rparr>),
                       enqueueTokens (response\<lparr>tokensToValidate := Some ts\<rparr>) q))
               else (Inr response, enqueueTokens response q)))"

text \<open>
  \<open>SiopValidation\<close> is not among the sources: \<open>SiopTokenValidator.validate\<close> takes its
  verdict on the queue item as the parameter \<open>siopValidation\<close>. The children are
  extracted and enqueued when that verdict is a success; the replay check comes last, on
  whatever response there is by then.
\<close>

definition SiopTokenValidator_validate ::
    "IExpectedSiop \<Rightarrow> (ValidationQueueItem \<Rightarrow> error + IValidationResponse) \<Rightarrow> decoder \<Rightarrow> jsonpath
      \<Rightarrow> ValidationQueue \<Rightarrow> ValidationQueueItem
      \<Rightarrow> (error + IValidationResponse) \<times> ValidationQueue" where
  "SiopTokenValidator_validate expected siopValidation dj jq q queueItem =
     (case siopValidation queueItem of
        Inl err \<Rightarrow> (Inl err, q)
      | Inr validationResult0 \<Rightarrow>
          (case (if result validationResult0 then getTokens dj jq validationResult0 q
                 else (Inr validationResult0, q)) of
             (Inl err, q') \<Rightarrow> (Inl err, q')
           | (Inr validationResult1, q') \<Rightarrow>
               (validateReplayProtection expected validationResult1, q')))"

section \<open>Validator\<close>

text \<open>
  A registered token validator: from the queue, the position of the item under
  validation, the SIOP DID and the contract id to its response (or the exception it
  throws) and the queue it leaves behind.
\<close>

type_synonym ITokenValidator =
  "ValidationQueue \<Rightarrow> nat \<Rightarrow> string option \<Rightarrow> string option
    \<Rightarrow> (error + IValidationResponse) \<times> ValidationQueue"

text \<open>
  What the validator reads from its builder and from the platform: the registry of
  token validators, the feature flag, and the collaborators of the status check (the
  public key of the key store; the signed status request for a presentation; the HTTP
  POST of a body to a URL, giving \<open>response.ok\<close> and the parsed body; the receipt
  validator for a receipt and the DID of the credential's issuer).
\<close>

record ValidatorBuilder =
  tokenValidators :: "TokenType \<Rightarrow> ITokenValidator option"
  featureVerifiedCredentialsStatusCheckEnabled :: bool
  getPublicKey :: "error + json"
  signRequest :: "ClaimToken \<Rightarrow> json \<Rightarrow> error + string"
  fetch :: "json \<Rightarrow> string \<Rightarrow> error + (bool \<times> (error + json))"
  receiptValidator :: "json \<Rightarrow> json option \<Rightarrow> error + IValidationResponse"

text \<open>The network traffic of a run: the status URLs posted to, with the bodies.\<close>

type_synonym traffic = "(json \<times> string) list"

text \<open>
  \<open>readContractId\<close>. \<^verbatim>\<open>new URL(s).pathname\<close> and \<^verbatim>\<open>decodeURIComponent\<close> belong to the
  platform and are the parameters \<open>pathname\<close> and \<open>decodeURI\<close>; the URL is the string
  its argument is converted to.
\<close>

definition readContractId ::
    "(string \<Rightarrow> error + string) \<Rightarrow> (string \<Rightarrow> error + string) \<Rightarrow> string \<Rightarrow> error + string" where
  "readContractId pathname decodeURI contractUrl =
     (case pathname contractUrl of
        Inl err \<Rightarrow> Inl err
      | Inr path \<Rightarrow> decodeURI (last (split CHR ''/'' path)))"

definition getClaimToken :: "decoder \<Rightarrow> ValidationQueueItem \<Rightarrow> error + ClaimToken" where
  "getClaimToken dj queueItem =
     (case claimToken queueItem of
        Some t \<Rightarrow> Inr t
      | None \<Rightarrow> create dj (tokenToValidate queueItem))"

definition isSiop :: "TokenType option \<Rightarrow> bool" where
  "isSiop t = (t = Some siopIssuance \<or> t = Some siopPresentationAttestation)"

definition itemsOfType :: "ValidationQueue \<Rightarrow> TokenType \<Rightarrow> ValidationQueueItem list" where
  "itemsOfType q t = filter (\<lambda>item. map_option type (validatedToken item) = Some t) q"

definition siopItems :: "ValidationQueue \<Rightarrow> ValidationQueueItem list" where
  "siopItems q = filter (\<lambda>item. isSiop (map_option type (validatedToken item))) q"

text \<open>A property of the payload object of an item's response, as
  \<^verbatim>\<open>siop.validationResponse.payloadObject.contract\<close> reads it.\<close>

definition payloadProperty :: "ValidationQueueItem \<Rightarrow> string \<Rightarrow> error + json option" where
  "payloadProperty item k =
     (case validationResponse item of
        None \<Rightarrow> Inl (TypeError ''Cannot read property payloadObject of undefined'')
      | Some r \<Rightarrow>
          (case payloadObject r of
             None \<Rightarrow> Inl (TypeError (''Cannot read property '' @ quote @ k @ quote @ '' of undefined''))
           | Some p \<Rightarrow> getProp p k))"

text \<open>The loop that files the validated tokens of some items under the ids of the
  items.\<close>

fun tokenMapFrom :: "ValidationQueueItem list \<Rightarrow> tokens \<Rightarrow> error + tokens" where
  "tokenMapFrom [] m = Inr m"
| "tokenMapFrom (item # rest) m =
     (case validatedToken item of
        None \<Rightarrow> tokenMapFrom rest m
      | Some t \<Rightarrow>
          (case assign (item_id item) t m of
             Inl err \<Rightarrow> Inl err
           | Inr m' \<Rightarrow> tokenMapFrom rest m'))"

definition tokenMap :: "ValidationQueueItem list \<Rightarrow> error + tokens option" where
  "tokenMap ts =
     (case ts of
        [] \<Rightarrow> Inr None
      | _ \<Rightarrow> (case tokenMapFrom ts [] of Inl err \<Rightarrow> Inl err | Inr m \<Rightarrow> Inr (Some m)))"

text \<open>\<^verbatim>\<open>xs.map(f)\<close> with a callback that may throw, and \<^verbatim>\<open>xs[0]\<close> of the values.\<close>

fun mapE :: "('a \<Rightarrow> error + 'b) \<Rightarrow> 'a list \<Rightarrow> error + 'b list" where
  "mapE f [] = Inr []"
| "mapE f (x # xs) =
     (case f x of
        Inl err \<Rightarrow> Inl err
      | Inr y \<Rightarrow> (case mapE f xs of Inl err \<Rightarrow> Inl err | Inr ys \<Rightarrow> Inr (y # ys)))"

fun first :: "'a option list \<Rightarrow> 'a option" where
  "first [] = None"
| "first (x # _) = x"

definition responseDid :: "ValidationQueueItem \<Rightarrow> error + json option" where
  "responseDid item =
     (case validationResponse item of
        None \<Rightarrow> Inl (TypeError ''Cannot read property did of undefined'')
      | Some r \<Rightarrow> Inr (map_option JStr (did r)))"

definition tokenAud :: "ValidationQueueItem \<Rightarrow> error + json option" where
  "tokenAud item =
     (case validatedToken item of
        None \<Rightarrow> Inr None
      | Some t \<Rightarrow> getProp (decodedToken t) ''aud'')"

definition setValidationResult :: "ValidationQueue \<Rightarrow> error + IValidationResult" where
  "setValidationResult q =
     (case mapE responseDid (siopItems q) of
        Inl err \<Rightarrow> Inl err
      | Inr dids \<Rightarrow>
          (case (if \<not> truthy (first dids)
                 then (case mapE tokenAud (itemsOfType q verifiableCredential) of
                         Inl err \<Rightarrow> Inl err
                       | Inr auds \<Rightarrow> Inr (first auds))
                 else Inr (first dids)) of
             Inl err \<Rightarrow> Inl err
           | Inr did1 \<Rightarrow>
               (case mapE (\<lambda>siop. payloadProperty siop ''contract'') (siopItems q) of
                  Inl err \<Rightarrow> Inl err
                | Inr contracts \<Rightarrow>
                    (case mapE (\<lambda>siop. payloadProperty siop ''jti'') (siopItems q) of
                       Inl err \<Rightarrow> Inl err
                     | Inr jtis \<Rightarrow>
                       (case tokenMap (itemsOfType q verifiableCredential) of
                          Inl err \<Rightarrow> Inl err
                        | Inr vcs \<Rightarrow>
                       (case tokenMap (itemsOfType q verifiablePresentation) of
                          Inl err \<Rightarrow> Inl err
                        | Inr vps \<Rightarrow>
                         Inr \<lparr>vr_did = (if truthy did1 then did1 else Some (JStr [])),
                              vr_contract = (if truthy (first contracts) then first contracts
                                             else Some (JStr [])),
                              siopJti = (case first jtis of
                                           None \<Rightarrow> Some (JStr [])
                                         | Some JNull \<Rightarrow> Some (JStr [])
                                         | Some j \<Rightarrow> Some j),
                              idTokens = (case itemsOfType q idToken of
                                            [] \<Rightarrow> None
                                          | ts \<Rightarrow> Some (List.map_filter validatedToken ts)),
                              verifiableCredentials = vcs,
                              verifiablePresentations = vps,
                              vr_selfIssued = (case itemsOfType q selfIssued of
                                            [] \<Rightarrow> None
                                          | t # _ \<Rightarrow> validatedToken t),
                              vr_siop = (case siopItems q of [] \<Rightarrow> None | t # _ \<Rightarrow> validatedToken t),
                              vr_verifiablePresentationStatus = None\<rparr>))))))"

text \<open>
  \<open>checkVpStatus\<close>: the loop over the credentials of one presentation, with the status
  entries gathered so far and the traffic so far. A status URL is posted to only for a
  credential that names one.
\<close>

definition statusSuccess :: "(string \<times> json) list \<Rightarrow> IValidationResponse" where
  "statusSuccess receipts = success\<lparr>validationResult :=
     Some \<lparr>vr_did = None, vr_contract = None, siopJti = None, idTokens = None,
           verifiableCredentials = None, verifiablePresentations = None, vr_selfIssued = None,
           vr_siop = None, vr_verifiablePresentationStatus = Some receipts\<rparr>\<rparr>"

definition statusEntries :: "IValidationResponse \<Rightarrow> (string \<times> json) list" where
  "statusEntries r =
     (case validationResult r of
        None \<Rightarrow> []
      | Some v \<Rightarrow> (case vr_verifiablePresentationStatus v of None \<Rightarrow> [] | Some es \<Rightarrow> es))"

fun mergeEntries ::
    "(string \<times> json) list \<Rightarrow> (string \<times> json) list \<Rightarrow> error + (string \<times> json) list" where
  "mergeEntries receipts [] = Inr receipts"
| "mergeEntries receipts ((k, v) # rest) =
     (case assign k v receipts of
        Inl err \<Rightarrow> Inl err
      | Inr receipts' \<Rightarrow> mergeEntries receipts' rest)"

fun forInOpt :: "json option \<Rightarrow> (string \<times> json) list" where
  "forInOpt None = []"
| "forInOpt (Some v) = forIn v"

fun vcStatusLoop ::
    "ValidatorBuilder \<Rightarrow> decoder \<Rightarrow> ClaimToken \<Rightarrow> json \<Rightarrow> (string \<times> json) list
      \<Rightarrow> (string \<times> json) list \<Rightarrow> traffic \<Rightarrow> (error + IValidationResponse) \<times> traffic" where
  "vcStatusLoop b dj vp publicKey [] receipts net = (Inr (statusSuccess receipts), net)"
| "vcStatusLoop b dj vp publicKey ((vc, raw) # rest) receipts net =
     (case create_untyped dj raw of
        Inl err \<Rightarrow> (Inl err, net)
      | Inr vcToValidate \<Rightarrow>
          (case getProp (decodedToken vcToValidate) ''iss'' of
             Inl err \<Rightarrow> (Inl err, net)
           | Inr vcIssuerDid \<Rightarrow>
               if truthy (optChain (optChain (optChain (Some (decodedToken vcToValidate)) ''vc'')
                            ''credentialStatus'') ''id'')
               then
                 (case optChain (optChain (optChain (Some (decodedToken vcToValidate)) ''vc'')
                         ''credentialStatus'') ''id'' of
                    None \<Rightarrow> vcStatusLoop b dj vp publicKey rest receipts net
                  | Some statusUrl \<Rightarrow>
                      (case signRequest b vp publicKey of
                         Inl err \<Rightarrow> (Inl err, net)
                       | Inr body \<Rightarrow>
                           (case fetch b statusUrl body of
                              Inl err \<Rightarrow> (Inl err, net @ [(statusUrl, body)])
                            | Inr (ok, parsed) \<Rightarrow>
                                if \<not> ok then
                                  (case toString statusUrl of
                                     Inl err \<Rightarrow> (Inl err, net @ [(statusUrl, body)])
                                   | Inr shown \<Rightarrow>
                                       (Inr (failure 403 (Some
                                          (''status check could not fetch response from '' @ shown))),
                                        net @ [(statusUrl, body)]))
                                else
                                  (case parsed of
                                     Inl err \<Rightarrow> (Inl err, net @ [(statusUrl, body)])
                                   | Inr receipt \<Rightarrow>
                                       (case receiptValidator b receipt vcIssuerDid of
                                          Inl err \<Rightarrow> (Inl err, net @ [(statusUrl, body)])
                                        | Inr r \<Rightarrow>
                                            if \<not> result r then
                                              (Inr (failure 403 (detailedError r)),
                                               net @ [(statusUrl, body)])
                                            else
                                              (case mergeEntries receipts (statusEntries r) of
                                                 Inl err \<Rightarrow> (Inl err, net @ [(statusUrl, body)])
                                               | Inr receipts' \<Rightarrow>
                                                   vcStatusLoop b dj vp publicKey rest receipts'
                                                     (net @ [(statusUrl, body)])))))))
               else vcStatusLoop b dj vp publicKey rest receipts net))"

definition checkVpStatus ::
    "ValidatorBuilder \<Rightarrow> decoder \<Rightarrow> ClaimToken \<Rightarrow> traffic
      \<Rightarrow> (error + IValidationResponse) \<times> traffic" where
  "checkVpStatus b dj verifiablePresentationToken net =
     (case getPublicKey b of
        Inl err \<Rightarrow> (Inl err, net)
      | Inr publicKey \<Rightarrow>
          (case getProp (decodedToken verifiablePresentationToken) ''vp'' of
             Inl err \<Rightarrow> (Inl err, net)
           | Inr vp \<Rightarrow>
               if truthy (optChain vp ''verifiableCredential'') then
                 vcStatusLoop b dj verifiablePresentationToken publicKey
                   (forInOpt (optChain vp ''verifiableCredential'')) [] net
               else (Inr (statusSuccess []), net)))"

text \<open>\<open>checkVcsStatus\<close>: the loop over the presentations, then the function. The list of
  credentials to validate that the source builds first is never read again.\<close>

fun vpStatusLoop ::
    "ValidatorBuilder \<Rightarrow> decoder \<Rightarrow> tokens \<Rightarrow> (string \<times> json) list \<Rightarrow> traffic
      \<Rightarrow> (error + IValidationResponse) \<times> traffic" where
  "vpStatusLoop b dj [] receipts net = (Inr (statusSuccess receipts), net)"
| "vpStatusLoop b dj ((vp, t) # rest) receipts net =
     (case checkVpStatus b dj t net of
        (Inl err, net') \<Rightarrow> (Inl err, net')
      | (Inr response, net') \<Rightarrow>
          if \<not> result response then (Inr response, net')
          else
            (case mergeEntries receipts (statusEntries response) of
               Inl err \<Rightarrow> (Inl err, net')
             | Inr receipts' \<Rightarrow> vpStatusLoop b dj rest receipts' net'))"

definition checkVcsStatus ::
    "ValidatorBuilder \<Rightarrow> decoder \<Rightarrow> IValidationResult \<Rightarrow> traffic
      \<Rightarrow> (error + IValidationResponse) \<times> traffic" where
  "checkVcsStatus b dj vr net =
     (if \<not> featureVerifiedCredentialsStatusCheckEnabled b then (Inr success, net)
      else
        (case verifiablePresentations vr of
           None \<Rightarrow> (Inr (failure 403 (Some ''No presentations to tests'')), net)
         | Some vps \<Rightarrow>
             (case verifiableCredentials vr of
                None \<Rightarrow> (Inr (failure 403 (Some ''No verifiable credentials to tests'')), net)
              | Some vcs \<Rightarrow> vpStatusLoop b dj vps [] net)))"

text \<open>
  \<open>Validator.validate\<close>. The state of its loop: the queue, the DID and the contract id
  of the SIOP seen so far, the tokens tracked in \<open>this.tokens\<close>, and a record of every
  call of a token validator (the type dispatched on and the id of the item).
\<close>

record loopState =
  queue :: ValidationQueue
  siopDid :: "string option"
  siopContractId :: "string option"
  trackedTokens :: "ClaimToken list"
  calls :: "(TokenType \<times> string) list"

datatype outcome =
    Continue
  | Return IValidationResponse
  | Throw error
  | OutOfFuel

text \<open>Calling the registered validator and storing its response on the item.\<close>

definition dispatch ::
    "ITokenValidator \<Rightarrow> nat \<Rightarrow> ClaimToken \<Rightarrow> string option \<Rightarrow> string option \<Rightarrow> loopState
      \<Rightarrow> (error + IValidationResponse) \<times> loopState" where
  "dispatch validator n t d c st =
     (case validator (queue st) n d c of
        (r, q') \<Rightarrow> (r, st\<lparr>queue := q', calls := calls st @ [(type t, item_id (queue st ! n))]\<rparr>))"

definition saveResult :: "nat \<Rightarrow> IValidationResponse \<Rightarrow> ClaimToken \<Rightarrow> loopState \<Rightarrow> loopState" where
  "saveResult n response t st = st\<lparr>queue := setResult (queue st) n response t\<rparr>"

text \<open>One pass of the body of the loop, for the item at position \<open>n\<close>.\<close>

definition body ::
    "ValidatorBuilder \<Rightarrow> decoder \<Rightarrow> (string \<Rightarrow> error + string) \<Rightarrow> (string \<Rightarrow> error + string)
      \<Rightarrow> nat \<Rightarrow> loopState \<Rightarrow> outcome \<times> loopState" where
  "body b dj pathname decodeURI n st =
     (case getClaimToken dj (queue st ! n) of
        Inl err \<Rightarrow> (Return (failure 400 (Some (message err))), st)
      | Inr t \<Rightarrow>
          (case tokenValidators b (type t) of
             None \<Rightarrow>
               (Return (failure 500 (Some (typeName (type t) @ '' does not has a TokenValidator''))),
                st\<lparr>trackedTokens := trackedTokens st @ [t]\<rparr>)
           | Some validator \<Rightarrow>
               (if type t = verifiablePresentationStatus then
                  (Return (failure 400 (Some (typeName (type t) @ '' is not supported''))),
                   st\<lparr>trackedTokens := trackedTokens st @ [t]\<rparr>)
                else
                  (case dispatch validator n t
                          (if type t = idToken then Some []
                           else if type t = verifiableCredential \<or> type t = verifiablePresentation
                           then siopDid st else None)
                          (if type t = idToken then siopContractId st else None)
                          (st\<lparr>trackedTokens := trackedTokens st @ [t]\<rparr>) of
                     (Inl err, st') \<Rightarrow> (Throw err, st')
                   | (Inr response, st') \<Rightarrow>
                       if type t = siopIssuance then
                         (if result response then
                            (case (case payloadObject response of
                                     None \<Rightarrow> Inl (TypeError ''Cannot read property contract of undefined'')
                                   | Some p \<Rightarrow> getProp p ''contract'') of
                               Inl err \<Rightarrow> (Throw err, st'\<lparr>siopDid := did response\<rparr>)
                             | Inr contract \<Rightarrow>
                                 (case template contract of
                                    Inl err \<Rightarrow> (Throw err, st'\<lparr>siopDid := did response\<rparr>)
                                  | Inr url \<Rightarrow>
                                 (case readContractId pathname decodeURI url of
                                    Inl err \<Rightarrow> (Throw err, st'\<lparr>siopDid := did response\<rparr>)
                                  | Inr c \<Rightarrow>
                                      (Continue, saveResult n response t
                                         (st'\<lparr>siopDid := did response, siopContractId := Some c\<rparr>)))))
                          else (Continue, saveResult n response t (st'\<lparr>siopDid := did response\<rparr>)))
                       else if type t = siopPresentationAttestation \<or> type t = siopPresentationExchange
                       then (Continue, saveResult n response t (st'\<lparr>siopDid := did response\<rparr>))
                       else (Continue, saveResult n response t st')))))"

text \<open>The do-while loop: the body for the current item, then the next unvalidated item,
  until there is none. Validators may enqueue without bound, so the loop runs on fuel.\<close>

fun validateLoop ::
    "nat \<Rightarrow> ValidatorBuilder \<Rightarrow> decoder \<Rightarrow> (string \<Rightarrow> error + string) \<Rightarrow> (string \<Rightarrow> error + string)
      \<Rightarrow> nat \<Rightarrow> loopState \<Rightarrow> outcome \<times> loopState" where
  "validateLoop 0 b dj pathname decodeURI n st = (OutOfFuel, st)"
| "validateLoop (Suc fuel) b dj pathname decodeURI n st =
     (case body b dj pathname decodeURI n st of
        (Continue, st') \<Rightarrow>
          (case getNextToken (queue st') of
             None \<Rightarrow> (Continue, st')
           | Some n' \<Rightarrow> validateLoop fuel b dj pathname decodeURI n' st')
      | (out, st') \<Rightarrow> (out, st'))"

text \<open>After the loop: the aggregate of the queue, the assembled result and the status
  check.\<close>

definition conclude ::
    "ValidatorBuilder \<Rightarrow> decoder \<Rightarrow> ValidationQueue \<Rightarrow> (error + IValidationResponse) \<times> traffic" where
  "conclude b dj q =
     (if result (getResult q) then
        (case setValidationResult q of
           Inl err \<Rightarrow> (Inl err, [])
         | Inr vr \<Rightarrow>
             (case checkVcsStatus b dj vr [] of
                (Inl err, net) \<Rightarrow> (Inl err, net)
              | (Inr statusResponse, net) \<Rightarrow>
                  if result statusResponse then
                    (Inr (success\<lparr>validationResult :=
                       Some (vr\<lparr>vr_verifiablePresentationStatus :=
                          (case validationResult statusResponse of
                             None \<Rightarrow> None
                           | Some v \<Rightarrow> vr_verifiablePresentationStatus v)\<rparr>)\<rparr>), net)
                  else (Inr statusResponse, net)))
      else (Inr (getResult q), []))"

definition Validator_validate ::
    "nat \<Rightarrow> ValidatorBuilder \<Rightarrow> decoder \<Rightarrow> (string \<Rightarrow> error + string) \<Rightarrow> (string \<Rightarrow> error + string)
      \<Rightarrow> string \<Rightarrow> outcome \<times> loopState \<times> traffic" where
  "Validator_validate fuel b dj pathname decodeURI token =
     (case validateLoop fuel b dj pathname decodeURI 0
             \<lparr>queue = enqueueToken [] ''siop'' token, siopDid = None, siopContractId = None,
              trackedTokens = [], calls = []\<rparr> of
        (Continue, st) \<Rightarrow>
          (case conclude b dj (queue st) of
             (Inl err, net) \<Rightarrow> (Throw err, st, net)
           | (Inr response, net) \<Rightarrow> (Return response, st, net))
      | (out, st) \<Rightarrow> (out, st, []))"

section \<open>Statements of the specification, and tables for concrete runs\<close>

text \<open>
  The specification's reading of \<open>readContractId\<close>: the last non-empty segment of the
  path, decoded.
\<close>

definition lastNonEmptySegment :: "string \<Rightarrow> string" where
  "lastNonEmptySegment path =
     (case filter (\<lambda>seg. seg \<noteq> []) (split CHR ''/'' path) of [] \<Rightarrow> [] | segs \<Rightarrow> last segs)"

definition spec_readContractId ::
    "(string \<Rightarrow> error + string) \<Rightarrow> (string \<Rightarrow> error + string) \<Rightarrow> string \<Rightarrow> error + string" where
  "spec_readContractId pathname decodeURI contractUrl =
     (case pathname contractUrl of
        Inl err \<Rightarrow> Inl err
      | Inr path \<Rightarrow> decodeURI (lastNonEmptySegment path))"

text \<open>The text of a path after its last slash (the whole path when it has none).\<close>

definition afterLastSlash :: "string \<Rightarrow> string" where
  "afterLastSlash path = rev (takeWhile (\<lambda>c. c \<noteq> CHR ''/'') (rev path))"

text \<open>
  Library functions given by a finite table, for running the definitions on concrete
  inputs: a partial function on strings that throws outside its table, and a JSON-path
  evaluator that matches nothing outside its table.
\<close>

definition tableFn :: "error \<Rightarrow> (string \<times> 'a) list \<Rightarrow> string \<Rightarrow> error + 'a" where
  "tableFn err tbl s = (case map_of tbl s of None \<Rightarrow> Inl err | Some v \<Rightarrow> Inr v)"

definition tableDecoder :: "(string \<times> json) list \<Rightarrow> decoder" where
  "tableDecoder = tableFn (SyntaxError ''Unexpected end of JSON input'')"

definition tablePath :: "(json \<times> json list) list \<Rightarrow> jsonpath" where
  "tablePath tbl payload path = Inr (case map_of tbl path of None \<Rightarrow> [] | Some ms \<Rightarrow> ms)"

text \<open>A builder with no validator registered, whose collaborators all fail.\<close>

definition bareBuilder :: "bool \<Rightarrow> ValidatorBuilder" where
  "bareBuilder flag =
     \<lparr>tokenValidators = (\<lambda>t. None),
      featureVerifiedCredentialsStatusCheckEnabled = flag,
      getPublicKey = Inl (Error ''no key''),
      signRequest = (\<lambda>t k. Inl (Error ''no signing key'')),
      fetch = (\<lambda>url body. Inl (TypeError ''fetch failed'')),
      receiptValidator = (\<lambda>receipt issuer. Inl (Error ''no receipt validator''))\<rparr>"

text \<open>A queue after a run on a lone issuance SIOP: its one item is validated, with the
  DID of the holder in the response and a contract and a \<open>jti\<close> in the payload.\<close>

definition siopPayload :: json where
  "siopPayload = JObj [(''iss'', JStr ''https://self-issued.me''),
                       (''contract'', JStr ''https://issuer.example/contracts/test''),
                       (''jti'', JStr ''jti-1'')]"

definition siopQueue :: "TokenType \<Rightarrow> ValidationQueue" where
  "siopQueue t =
     [\<lparr>item_id = ''siop'', tokenToValidate = ''h.p.sig'', claimToken = None,
       validatedToken = Some \<lparr>type = t, rawToken = ''h.p.sig'', tokenHeader = JObj [],
          decodedToken = siopPayload, configuration = []\<rparr>,
       validationResponse = Some (success\<lparr>did := Some ''did:test:user'',
          payloadObject := Some siopPayload\<rparr>),
       isValidated = True\<rparr>]"

text \<open>A verdict of \<open>SiopValidation\<close> that does not depend on the item. Attestations of
  one self-issued claim bundle and one id token, a JWS of three segments; the two tokens
  they hold; and the successful verdict on a SIOP whose payload echoes the nonce \<open>xyz\<close>
  and carries these attestations.\<close>

definition verdict :: "IValidationResponse \<Rightarrow> ValidationQueueItem \<Rightarrow> error + IValidationResponse" where
  "verdict r item = Inr r"





text \<open>The payload of a presentation-exchange SIOP with the given descriptor map, and
  tokens under \<open>tokens.presentations\<close>.\<close>

definition exchangePayload :: "json list \<Rightarrow> json" where
  "exchangePayload descriptors =
     JObj [(''presentation_submission'', JObj [(''descriptor_map'', JArr descriptors)]),
           (''tokens'', JObj [(''presentations'', JObj [(''IdentityCard'', JStr ''h.p.sig'')])]),
           (''iss'', JStr ''https://self-issued.me''),
           (''aud'', JStr ''https://verifier.example'')]"

text \<open>
  Two SIOP payloads that differ in their flavour only, the verdict of \<open>SiopValidation\<close>
  on a payload (a success that carries the DID of the holder), and a builder in which
  \<open>SiopTokenValidator\<close> with that verdict is registered for the three SIOP types and the
  status check is disabled.
\<close>

definition exchangeSiop :: json where
  "exchangeSiop = JObj [(''iss'', JStr ''https://self-issued.me''),
                        (''presentation_submission'', JObj [(''descriptor_map'', JArr [])]),
                        (''jti'', JStr ''jti-1'')]"

definition attestationSiop :: json where
  "attestationSiop = JObj [(''iss'', JStr ''https://self-issued.me''),
                           (''attestations'', JObj []),
                           (''jti'', JStr ''jti-1'')]"

definition holderVerdict :: "json \<Rightarrow> IValidationResponse" where
  "holderVerdict payload = success\<lparr>did := Some ''did:test:user'', payloadObject := Some payload\<rparr>"

definition siopBuilder :: "json \<Rightarrow> ValidatorBuilder" where
  "siopBuilder payload =
     (bareBuilder False)\<lparr>tokenValidators :=
        (\<lambda>t. if t = siopIssuance \<or> t = siopPresentationAttestation \<or> t = siopPresentationExchange
             then Some (\<lambda>q n d c. SiopTokenValidator_validate \<lparr>nonce = None, state = None\<rparr>
                          (verdict (holderVerdict payload)) (tableDecoder []) (tablePath []) q (q ! n))
             else None)\<rparr>"

section \<open>Classification of tokens\<close>

lemma trim_nonblank: "trim s \<noteq> [] \<longleftrightarrow> (\<exists>c\<in>set s. \<not> isWhiteSpace c)"
proof -
  have a: "dropWhile isWhiteSpace s \<noteq> [] \<longleftrightarrow> (\<exists>c\<in>set s. \<not> isWhiteSpace c)"
    by (simp add: dropWhile_eq_Nil_conv)
  have b: "dropWhile isWhiteSpace (rev (dropWhile isWhiteSpace s)) \<noteq> []
             \<longleftrightarrow> dropWhile isWhiteSpace s \<noteq> []"
  proof
    assume h: "dropWhile isWhiteSpace (rev (dropWhile isWhiteSpace s)) \<noteq> []"
    show "dropWhile isWhiteSpace s \<noteq> []"
    proof
      assume "dropWhile isWhiteSpace s = []"
      with h show False by simp
    qed
  next
    assume n: "dropWhile isWhiteSpace s \<noteq> []"
    then have "\<not> isWhiteSpace (hd (dropWhile isWhiteSpace s))" by (rule hd_dropWhile)
    moreover have "hd (dropWhile isWhiteSpace s) \<in> set (rev (dropWhile isWhiteSpace s))"
      using n by simp
    ultimately show "dropWhile isWhiteSpace (rev (dropWhile isWhiteSpace s)) \<noteq> []"
      by (auto simp: dropWhile_eq_Nil_conv)
  qed
  show ?thesis unfolding trim_def using a b by simp
qed

lemma ClaimToken_new_decoded:
  assumes "split CHR ''.'' token = h # p # rest" "dj h = Inr hdr" "dj p = Inr payload"
  shows "ClaimToken_new dj (typeName t) (JStr token) None =
     Inr \<lparr>type = t, rawToken = token, tokenHeader = hdr, decodedToken = payload,
          configuration = []\<rparr>"
  using assms by (cases t) (simp_all add: ClaimToken_new_def tokentypeValues_def decode_def)

text \<open>
  C1, as the code has it. For a token of at least two segments whose header parses and
  whose payload parses to anything but \<open>null\<close>, \<open>create\<close> classifies by the shape of the
  payload, in this order, where a property counts only when its value is truthy (not
  \<open>null\<close>, \<open>false\<close>, \<open>0\<close> or the empty string): with \<open>iss\<close> equal to
  \<open>https://self-issued.me\<close>, a truthy \<open>contract\<close> gives \<open>siopIssuance\<close>, else a truthy
  \<open>presentation_submission\<close> gives \<open>siopPresentationExchange\<close>, else a truthy
  \<open>attestations\<close> gives \<open>siopPresentationAttestation\<close>, else creation fails with
  \<open>SIOP was not recognized.\<close>; otherwise a truthy \<open>vc\<close> gives \<open>verifiableCredential\<close>, a
  truthy \<open>vp\<close> gives \<open>verifiablePresentation\<close>, a third segment with a character that
  \<open>trim\<close> does not strip (one that is neither white space nor a line terminator) gives
  \<open>idToken\<close>, and everything else \<open>selfIssued\<close>. The token created carries the raw token,
  the parsed header and payload and an empty configuration.
\<close>

theorem create_classifies:
  assumes "split CHR ''.'' token = h # p # rest"
      and "dj h = Inr hdr" and "dj p = Inr payload" and "payload \<noteq> JNull"
  shows "create dj token =
     (if field payload ''iss'' = Some (JStr ''https://self-issued.me'') then
        (if truthy (field payload ''contract'') then
           Inr \<lparr>type = siopIssuance, rawToken = token, tokenHeader = hdr,
                decodedToken = payload, configuration = []\<rparr>
         else if truthy (field payload ''presentation_submission'') then
           Inr \<lparr>type = siopPresentationExchange, rawToken = token, tokenHeader = hdr,
                decodedToken = payload, configuration = []\<rparr>
         else if truthy (field payload ''attestations'') then
           Inr \<lparr>type = siopPresentationAttestation, rawToken = token, tokenHeader = hdr,
                decodedToken = payload, configuration = []\<rparr>
         else Inl (Error ''SIOP was not recognized.''))
      else if truthy (field payload ''vc'') then
        Inr \<lparr>type = verifiableCredential, rawToken = token, tokenHeader = hdr,
             decodedToken = payload, configuration = []\<rparr>
      else if truthy (field payload ''vp'') then
        Inr \<lparr>type = verifiablePresentation, rawToken = token, tokenHeader = hdr,
             decodedToken = payload, configuration = []\<rparr>
      else if (case rest of [] \<Rightarrow> False | s # _ \<Rightarrow> \<exists>c\<in>set s. \<not> isWhiteSpace c) then
        Inr \<lparr>type = idToken, rawToken = token, tokenHeader = hdr,
             decodedToken = payload, configuration = []\<rparr>
      else
        Inr \<lparr>type = selfIssued, rawToken = token, tokenHeader = hdr,
             decodedToken = payload, configuration = []\<rparr>)"
proof -
  have sig: "tokenSignature token =
      (case rest of [] \<Rightarrow> False | s # _ \<Rightarrow> \<exists>c\<in>set s. \<not> isWhiteSpace c)"
    using assms(1) by (simp add: tokenSignature_def trim_nonblank split: list.splits)
  have pl: "getTokenPayload dj token = Inr payload"
    using assms by (simp add: getTokenPayload_def)
  note new = ClaimToken_new_decoded [OF assms(1-3)]
  show ?thesis
    unfolding create_def pl getProp_def using assms(4)
    by (simp add: new sig TOKEN_SI_ISS_def del: typeName.simps)
qed

theorem create_classifies_witness:
  "split CHR ''.'' ''h.p.sig'' = [''h'', ''p'', ''sig'']
   \<and> tableDecoder [(''h'', JObj [(''typ'', JStr ''JWT'')]),
                   (''p'', JObj [(''iss'', JStr ''did:test:issuer''), (''upn'', JStr ''jules'')])] ''h''
       = Inr (JObj [(''typ'', JStr ''JWT'')])
   \<and> create (tableDecoder [(''h'', JObj [(''typ'', JStr ''JWT'')]),
                   (''p'', JObj [(''iss'', JStr ''did:test:issuer''), (''upn'', JStr ''jules'')])])
        ''h.p.sig''
       = Inr \<lparr>type = idToken, rawToken = ''h.p.sig'', tokenHeader = JObj [(''typ'', JStr ''JWT'')],
              decodedToken = JObj [(''iss'', JStr ''did:test:issuer''), (''upn'', JStr ''jules'')],
              configuration = []\<rparr>"
  using create_classifies [of "''h.p.sig''" "''h''" "''p''" "[''sig'']"
      "tableDecoder [(''h'', JObj [(''typ'', JStr ''JWT'')]),
                   (''p'', JObj [(''iss'', JStr ''did:test:issuer''), (''upn'', JStr ''jules'')])]"
      "JObj [(''typ'', JStr ''JWT'')]"
      "JObj [(''iss'', JStr ''did:test:issuer''), (''upn'', JStr ''jules'')]"]
  by (simp add: tableDecoder_def tableFn_def isWhiteSpace_def)

text \<open>
  C1 as stated fails: a payload of the SIOP issuer in which \<open>contract\<close> is present, with
  the empty string as its value, is not classified as \<open>siopIssuance\<close> but by its
  attestations.
\<close>

theorem create_present_contract_counterexample:
  "field (JObj [(''iss'', JStr ''https://self-issued.me''), (''contract'', JStr []),
                (''attestations'', JObj [])]) ''contract'' = Some (JStr [])
   \<and> create (tableDecoder [(''h'', JObj []),
                (''p'', JObj [(''iss'', JStr ''https://self-issued.me''), (''contract'', JStr []),
                              (''attestations'', JObj [])])]) ''h.p.sig''
     = Inr \<lparr>type = siopPresentationAttestation, rawToken = ''h.p.sig'', tokenHeader = JObj [],
            decodedToken = JObj [(''iss'', JStr ''https://self-issued.me''),
                                 (''contract'', JStr []), (''attestations'', JObj [])],
            configuration = []\<rparr>"
  by (simp add: create_def getTokenPayload_def getProp_def tableDecoder_def tableFn_def
      TOKEN_SI_ISS_def ClaimToken_new_def tokentypeValues_def decode_def)

lemma no_break_space_is_blank: "tokenSignature (''h.p.'' @ [CHR 0xA0, CHR 0x20]) = False"
  by (simp add: tokenSignature_def trim_def isWhiteSpace_def)

section \<open>The contract id\<close>

lemma split_nonempty: "split c s \<noteq> []"
  by (induction s) (auto split: list.splits)

lemma split_no_separator: "c \<notin> set s \<Longrightarrow> split c s = [s]"
  by (induction s) auto

lemma split_at_separator: "split c (a @ c # b) = split c a @ split c b"
proof (induction a)
  case Nil
  then show ?case by simp
next
  case (Cons x a)
  then show ?case
    using split_nonempty [of c a] by (cases "split c a") auto
qed

lemma last_filter_keeps: "xs \<noteq> [] \<Longrightarrow> P (last xs) \<Longrightarrow> last (filter P xs) = last xs"
  by (induction xs) (auto simp: filter_empty_conv)

lemma last_split: "last (split CHR ''/'' path) = afterLastSlash path"
proof (cases "CHR ''/'' \<in> set path")
  case False
  then have tw: "takeWhile (\<lambda>c. c \<noteq> CHR ''/'') (rev path) = rev path"
    by (auto simp: takeWhile_eq_all_conv)
  show ?thesis
    by (simp add: split_no_separator [OF False] afterLastSlash_def tw)
next
  case True
  then obtain a b where ab: "path = a @ CHR ''/'' # b" "CHR ''/'' \<notin> set b"
    by (meson split_list_last)
  have "takeWhile (\<lambda>c. c \<noteq> CHR ''/'') (rev b @ CHR ''/'' # rev a)
          = rev b @ takeWhile (\<lambda>c. c \<noteq> CHR ''/'') (CHR ''/'' # rev a)"
    by (rule takeWhile_append2) (use ab(2) in auto)
  then show ?thesis
    using ab by (simp add: split_at_separator split_no_separator afterLastSlash_def)
qed

lemma afterLastSlash_empty:
  "afterLastSlash path = [] \<longleftrightarrow> path = [] \<or> last path = CHR ''/''"
proof (cases "rev path")
  case Nil
  then show ?thesis by (simp add: afterLastSlash_def)
next
  case (Cons x xs)
  then have "path \<noteq> []" "last path = x" by (auto simp: last_rev [symmetric] simp del: last_rev)
  with Cons show ?thesis by (auto simp: afterLastSlash_def)
qed

lemma segments_all_empty:
  "(\<forall>seg\<in>set (split c s). seg = []) \<longleftrightarrow> (\<forall>x\<in>set s. x = c)"
proof (induction s)
  case Nil
  show ?case by simp
next
  case (Cons x s)
  show ?case
  proof (cases "x = c")
    case True
    with Cons show ?thesis by simp
  next
    case False
    then show ?thesis using split_nonempty [of c s] by (cases "split c s") auto
  qed
qed

lemma lastNonEmptySegment_empty:
  "lastNonEmptySegment path = [] \<longleftrightarrow> (\<forall>x\<in>set path. x = CHR ''/'')"
proof (cases "filter (\<lambda>seg. seg \<noteq> []) (split CHR ''/'' path)")
  case Nil
  then have "\<forall>seg\<in>set (split CHR ''/'' path). seg = []" by (simp add: filter_empty_conv)
  with Nil show ?thesis by (simp add: lastNonEmptySegment_def segments_all_empty)
next
  case (Cons a as)
  then have "last (a # as) \<in> set (filter (\<lambda>seg. seg \<noteq> []) (split CHR ''/'' path))"
    by (metis last_in_set list.distinct(1))
  then have ne: "last (a # as) \<noteq> []" and mem: "last (a # as) \<in> set (split CHR ''/'' path)" by auto
  have "lastNonEmptySegment path = last (a # as)" using Cons by (simp add: lastNonEmptySegment_def)
  moreover have "\<not> (\<forall>seg\<in>set (split CHR ''/'' path). seg = [])" using ne mem by blast
  ultimately show ?thesis using ne by (simp add: segments_all_empty)
qed

lemma lastNonEmptySegment_agrees:
  assumes "afterLastSlash path \<noteq> []"
  shows "lastNonEmptySegment path = afterLastSlash path"
proof -
  have ne: "last (split CHR ''/'' path) \<noteq> []" using assms by (simp add: last_split)
  then have "last (filter (\<lambda>seg. seg \<noteq> []) (split CHR ''/'' path)) = last (split CHR ''/'' path)"
    using split_nonempty [of "CHR ''/''" path] by (simp add: last_filter_keeps)
  moreover have "filter (\<lambda>seg. seg \<noteq> []) (split CHR ''/'' path) \<noteq> []"
    using ne split_nonempty [of "CHR ''/''" path]
    by (metis (mono_tags, lifting) filter_empty_conv last_in_set)
  ultimately show ?thesis
    by (cases "filter (\<lambda>seg. seg \<noteq> []) (split CHR ''/'' path)")
       (simp_all add: lastNonEmptySegment_def last_split)
qed

text \<open>
  C6, as the code has it. \<open>readContractId\<close> parses the URL and returns, URL-decoded,
  the last segment of the path, that is the text after its last slash, empty or not,
  where the specification decodes the last non-empty segment. The two segments differ
  exactly for a path that ends in a slash and has a character other than a slash: there
  the code decodes the empty string, so a trailing slash does change the contract id.
\<close>

theorem readContractId_last_segment:
  assumes "pathname contractUrl = Inr path"
  shows "readContractId pathname decodeURI contractUrl = decodeURI (afterLastSlash path)
       \<and> spec_readContractId pathname decodeURI contractUrl = decodeURI (lastNonEmptySegment path)
       \<and> (afterLastSlash path \<noteq> lastNonEmptySegment path
            \<longleftrightarrow> path \<noteq> [] \<and> last path = CHR ''/'' \<and> (\<exists>c\<in>set path. c \<noteq> CHR ''/''))
       \<and> (path \<noteq> [] \<and> last path = CHR ''/'' \<longrightarrow>
            readContractId pathname decodeURI contractUrl = decodeURI [])"
proof -
  have r: "readContractId pathname decodeURI contractUrl = decodeURI (afterLastSlash path)"
    using assms by (simp add: readContractId_def last_split)
  have s: "spec_readContractId pathname decodeURI contractUrl = decodeURI (lastNonEmptySegment path)"
    using assms by (simp add: spec_readContractId_def)
  have d: "afterLastSlash path \<noteq> lastNonEmptySegment path
            \<longleftrightarrow> path \<noteq> [] \<and> last path = CHR ''/'' \<and> (\<exists>c\<in>set path. c \<noteq> CHR ''/'')"
  proof (cases "afterLastSlash path = []")
    case True
    then have "afterLastSlash path \<noteq> lastNonEmptySegment path \<longleftrightarrow> lastNonEmptySegment path \<noteq> []"
      by auto
    also have "\<dots> \<longleftrightarrow> (\<exists>c\<in>set path. c \<noteq> CHR ''/'')"
      by (simp add: lastNonEmptySegment_empty)
    finally show ?thesis using True afterLastSlash_empty [of path] by auto
  next
    case False
    then show ?thesis
      using lastNonEmptySegment_agrees [of path] afterLastSlash_empty [of path] by auto
  qed
  have t: "readContractId pathname decodeURI contractUrl = decodeURI []"
    if "path \<noteq> [] \<and> last path = CHR ''/''"
    using that r afterLastSlash_empty [of path] by simp
  show ?thesis using r s d t by blast
qed

theorem readContractId_last_segment_witness:
  "tableFn (TypeError ''Invalid URL'') [(''https://issuer.example/v1.0/contracts/Driving%20License'', ''/v1.0/contracts/Driving%20License'')]
      ''https://issuer.example/v1.0/contracts/Driving%20License'' = Inr ''/v1.0/contracts/Driving%20License''
   \<and> readContractId
        (tableFn (TypeError ''Invalid URL'') [(''https://issuer.example/v1.0/contracts/Driving%20License'', ''/v1.0/contracts/Driving%20License'')])
        (tableFn (Error ''URI malformed'') [(''Driving%20License'', ''Driving License'')])
        ''https://issuer.example/v1.0/contracts/Driving%20License'' = Inr ''Driving License''
   \<and> tableFn (TypeError ''Invalid URL'') [(''https://issuer.example/contracts/test/'', ''/contracts/test/'')]
      ''https://issuer.example/contracts/test/'' = Inr ''/contracts/test/''
   \<and> readContractId
        (tableFn (TypeError ''Invalid URL'') [(''https://issuer.example/contracts/test/'', ''/contracts/test/'')])
        (tableFn (Error ''URI malformed'') [([], []), (''test'', ''test'')])
        ''https://issuer.example/contracts/test/'' = Inr []"
  using readContractId_last_segment [of
        "tableFn (TypeError ''Invalid URL'') [(''https://issuer.example/v1.0/contracts/Driving%20License'', ''/v1.0/contracts/Driving%20License'')]"
        "''https://issuer.example/v1.0/contracts/Driving%20License''"
        "''/v1.0/contracts/Driving%20License''"
        "tableFn (Error ''URI malformed'') [(''Driving%20License'', ''Driving License'')]"]
     readContractId_last_segment [of
        "tableFn (TypeError ''Invalid URL'') [(''https://issuer.example/contracts/test/'', ''/contracts/test/'')]"
        "''https://issuer.example/contracts/test/''"
        "''/contracts/test/''"
        "tableFn (Error ''URI malformed'') [([], []), (''test'', ''test'')]"]
  by (simp add: tableFn_def afterLastSlash_def)

text \<open>
  C6 as stated fails: with a trailing slash the code returns the empty contract id,
  where the last non-empty segment is \<open>test\<close>.
\<close>

theorem readContractId_trailing_slash_counterexample:
  "readContractId
     (tableFn (TypeError ''Invalid URL'') [(''https://issuer.example/contracts/test/'', ''/contracts/test/'')])
     (tableFn (Error ''URI malformed'') [([], []), (''test'', ''test'')])
     ''https://issuer.example/contracts/test/'' = Inr []
   \<and> spec_readContractId
     (tableFn (TypeError ''Invalid URL'') [(''https://issuer.example/contracts/test/'', ''/contracts/test/'')])
     (tableFn (Error ''URI malformed'') [([], []), (''test'', ''test'')])
     ''https://issuer.example/contracts/test/'' = Inr ''test''"
  by (simp add: readContractId_def spec_readContractId_def lastNonEmptySegment_def tableFn_def)

section \<open>Immutability of a claim token\<close>

lemma construct_snapshot:
  "construct dj name (Prim v) config h = Inr (this, h')
     \<Longrightarrow> ClaimToken_new dj name v config = Inr (snapshot this h')"
  by (auto simp: construct_def ClaimToken_new_def snapshot_def nth_append
           split: list.splits json.splits sum.splits prod.splits)

lemma step_preserves:
  assumes "step a w = Some w'"
  shows "this_type (self w') = this_type (self w)
       \<and> this_configuration (self w') = this_configuration (self w)
       \<and> this_tokenHeader (self w') = this_tokenHeader (self w)
       \<and> this_decodedToken (self w') = this_decodedToken (self w)
       \<and> this_rawToken (self w') = lastSet [a] (this_rawToken (self w))
       \<and> (b \<notin> set (written [a]) \<longrightarrow> heap w' ! b = heap w ! b)"
  using assms
  by (cases a) (auto simp: set_rawToken_def split: if_splits json.splits)

lemma lastSet_Cons: "lastSet (a # as) raw = lastSet as (lastSet [a] raw)"
  by (cases a) simp_all

lemma written_Cons: "set (written (a # as)) = set (written [a]) \<union> set (written as)"
  by (cases a) simp_all

lemma run_preserves:
  "run as w = Some w' \<Longrightarrow>
     this_type (self w') = this_type (self w)
       \<and> this_configuration (self w') = this_configuration (self w)
       \<and> this_tokenHeader (self w') = this_tokenHeader (self w)
       \<and> this_decodedToken (self w') = this_decodedToken (self w)
       \<and> this_rawToken (self w') = lastSet as (this_rawToken (self w))
       \<and> (b \<notin> set (written as) \<longrightarrow> heap w' ! b = heap w ! b)"
proof (induction as arbitrary: w)
  case Nil
  then show ?case by simp
next
  case (Cons a as)
  from Cons.prems obtain w1 where s: "step a w = Some w1" and r: "run as w1 = Some w'"
    by (auto split: option.splits)
  note p = step_preserves [OF s, of b]
  note q = Cons.IH [OF r]
  show ?case
    using p q by (simp add: lastSet_Cons [of a as] written_Cons [of a as] del: lastSet.simps written.simps)
qed

text \<open>
  C8, as the code has it. Whatever a client does with a constructed \<open>ClaimToken\<close>, calling
  its public members and writing to the objects it holds, the type and the
  configuration of the token stay what they were, and its header and its decoded
  payload stay the same objects; the raw token is what the setter \<open>rawToken\<close> last
  stored, and is unchanged without a call of the setter. The contents of the header and
  of the decoded payload are unchanged as long as nobody writes to those objects: the
  token does not, but the getters hand out the objects themselves, and the constructor
  keeps an object of the caller as the decoded payload, so their holders can.
\<close>

theorem members_keep_all_but_rawToken:
  assumes "run as w = Some w'"
  shows "get_type (self w') = get_type (self w)
       \<and> get_configuration (self w') = get_configuration (self w)
       \<and> get_tokenHeader (self w') = get_tokenHeader (self w)
       \<and> get_decodedToken (self w') = get_decodedToken (self w)
       \<and> get_rawToken (self w') = lastSet as (get_rawToken (self w))
       \<and> (get_tokenHeader (self w) \<notin> set (written as) \<longrightarrow>
            tokenHeader (snapshot (self w') (heap w')) = tokenHeader (snapshot (self w) (heap w)))
       \<and> (get_decodedToken (self w) \<notin> set (written as) \<longrightarrow>
            decodedToken (snapshot (self w') (heap w')) = decodedToken (snapshot (self w) (heap w)))"
  using run_preserves [OF assms, of "this_tokenHeader (self w)"]
        run_preserves [OF assms, of "this_decodedToken (self w)"]
  by (simp add: get_type_def get_configuration_def get_tokenHeader_def get_decodedToken_def
      get_rawToken_def snapshot_def)

theorem members_keep_all_but_rawToken_witness:
  "run [Call_tokenHeader, Write 0 ''alg'' (JStr ''none''), Call_set_rawToken ''h.p.forged'']
      \<lparr>self = \<lparr>this_type = verifiableCredential, this_rawToken = ''h.p.sig'',
                this_configuration = [], this_decodedToken = 1, this_tokenHeader = 0\<rparr>,
       heap = [JObj [], JObj [(''vc'', JObj [])]], held = []\<rparr>
     = Some \<lparr>self = \<lparr>this_type = verifiableCredential, this_rawToken = ''h.p.forged'',
                     this_configuration = [], this_decodedToken = 1, this_tokenHeader = 0\<rparr>,
            heap = [JObj [(''alg'', JStr ''none'')], JObj [(''vc'', JObj [])]], held = [0]\<rparr>
   \<and> 1 \<notin> set (written [Call_tokenHeader, Write 0 ''alg'' (JStr ''none''),
                          Call_set_rawToken ''h.p.forged''])
   \<and> decodedToken (snapshot
         \<lparr>this_type = verifiableCredential, this_rawToken = ''h.p.forged'',
          this_configuration = [], this_decodedToken = 1, this_tokenHeader = 0\<rparr>
         [JObj [(''alg'', JStr ''none'')], JObj [(''vc'', JObj [])]]) = JObj [(''vc'', JObj [])]"
proof -
  have r: "run [Call_tokenHeader, Write 0 ''alg'' (JStr ''none''), Call_set_rawToken ''h.p.forged'']
      \<lparr>self = \<lparr>this_type = verifiableCredential, this_rawToken = ''h.p.sig'',
                this_configuration = [], this_decodedToken = 1, this_tokenHeader = 0\<rparr>,
       heap = [JObj [], JObj [(''vc'', JObj [])]], held = []\<rparr>
     = Some \<lparr>self = \<lparr>this_type = verifiableCredential, this_rawToken = ''h.p.forged'',
                     this_configuration = [], this_decodedToken = 1, this_tokenHeader = 0\<rparr>,
            heap = [JObj [(''alg'', JStr ''none'')], JObj [(''vc'', JObj [])]], held = [0]\<rparr>"
    by (simp add: get_tokenHeader_def set_rawToken_def put_def arrayIndex_def)
  show ?thesis
    using r members_keep_all_but_rawToken [OF r]
    by (simp add: get_decodedToken_def snapshot_def)
qed

text \<open>
  C8 as stated fails: the public setter replaces the raw token of a constructed token
  (and leaves the header and payload decoded from the old one), and a write to the
  object that the getter \<open>decodedToken\<close> returned changes the decoded payload of the token.
\<close>

theorem rawToken_setter_counterexample:
  "construct (tableDecoder [(''h'', JObj []), (''p'', JObj [(''vc'', JObj [])])])
      ''verifiableCredential'' (Prim (JStr ''h.p.sig'')) None []
     = Inr (\<lparr>this_type = verifiableCredential, this_rawToken = ''h.p.sig'',
             this_configuration = [], this_decodedToken = 1, this_tokenHeader = 0\<rparr>,
            [JObj [], JObj [(''vc'', JObj [])]])
   \<and> run [Call_set_rawToken ''h.p.forged'']
        \<lparr>self = \<lparr>this_type = verifiableCredential, this_rawToken = ''h.p.sig'',
                  this_configuration = [], this_decodedToken = 1, this_tokenHeader = 0\<rparr>,
         heap = [JObj [], JObj [(''vc'', JObj [])]], held = []\<rparr>
     = Some \<lparr>self = \<lparr>this_type = verifiableCredential, this_rawToken = ''h.p.forged'',
                     this_configuration = [], this_decodedToken = 1, this_tokenHeader = 0\<rparr>,
            heap = [JObj [], JObj [(''vc'', JObj [])]], held = []\<rparr>
   \<and> rawToken (snapshot
         \<lparr>this_type = verifiableCredential, this_rawToken = ''h.p.forged'',
          this_configuration = [], this_decodedToken = 1, this_tokenHeader = 0\<rparr>
         [JObj [], JObj [(''vc'', JObj [])]]) \<noteq> ''h.p.sig''
   \<and> run [Call_decodedToken, Write 1 ''vc'' JNull]
        \<lparr>self = \<lparr>this_type = verifiableCredential, this_rawToken = ''h.p.sig'',
                  this_configuration = [], this_decodedToken = 1, this_tokenHeader = 0\<rparr>,
         heap = [JObj [], JObj [(''vc'', JObj [])]], held = []\<rparr>
     = Some \<lparr>self = \<lparr>this_type = verifiableCredential, this_rawToken = ''h.p.sig'',
                     this_configuration = [], this_decodedToken = 1, this_tokenHeader = 0\<rparr>,
            heap = [JObj [], JObj [(''vc'', JNull)]], held = [1]\<rparr>
   \<and> decodedToken (snapshot
         \<lparr>this_type = verifiableCredential, this_rawToken = ''h.p.sig'',
          this_configuration = [], this_decodedToken = 1, this_tokenHeader = 0\<rparr>
         [JObj [], JObj [(''vc'', JNull)]]) \<noteq> JObj [(''vc'', JObj [])]"
  by (simp add: construct_def tokentypeValues_def decode_def tableDecoder_def tableFn_def
      set_rawToken_def get_decodedToken_def snapshot_def put_def)

section \<open>The status check\<close>

text \<open>
  C9. With the feature \<open>verifiedCredentialsStatusCheckEnabled\<close> disabled,
  \<open>checkVcsStatus\<close> returns the success response (\<open>result\<close> true, \<open>status\<close> 200) for
  every validation result and adds nothing to the network traffic; the end of a run then
  causes no traffic at all.
\<close>

theorem checkVcsStatus_disabled:
  "checkVcsStatus (b\<lparr>featureVerifiedCredentialsStatusCheckEnabled := False\<rparr>) dj vr net
     = (Inr \<lparr>result = True, status = 200, detailedError = None, payloadObject = None,
             did = None, tokensToValidate = None, validationResult = None\<rparr>, net)
   \<and> snd (conclude (b\<lparr>featureVerifiedCredentialsStatusCheckEnabled := False\<rparr>) dj q) = []"
  by (simp add: checkVcsStatus_def success_def conclude_def split: sum.splits)

lemma setValidationResult_presentations:
  assumes "setValidationResult q = Inr vr"
  shows "tokenMap (itemsOfType q verifiablePresentation) = Inr (verifiablePresentations vr)"
  using assms
  by (auto simp: setValidationResult_def split: sum.splits if_splits)

text \<open>
  C10, as the code has it. With the feature enabled, \<open>checkVcsStatus\<close> answers a
  validation result whose field \<open>verifiablePresentations\<close> is absent with \<open>result\<close>
  false, \<open>status\<close> 403 and \<open>No presentations to tests\<close>, and one that has the field but
  lacks the field \<open>verifiableCredentials\<close> with \<open>No verifiable credentials to tests\<close>,
  in both cases without traffic. The assembled result of a queue without verifiable
  presentations lacks the field, so a run with no presentation that gets as far as the
  status check ends in the first failure.
\<close>

theorem checkVcsStatus_nothing_to_test:
  assumes "featureVerifiedCredentialsStatusCheckEnabled b"
  shows "(verifiablePresentations vr = None \<longrightarrow>
           checkVcsStatus b dj vr net
             = (Inr \<lparr>result = False, status = 403,
                     detailedError = Some ''No presentations to tests'', payloadObject = None,
                     did = None, tokensToValidate = None, validationResult = None\<rparr>, net))
       \<and> (verifiablePresentations vr \<noteq> None \<and> verifiableCredentials vr = None \<longrightarrow>
           checkVcsStatus b dj vr net
             = (Inr \<lparr>result = False, status = 403,
                     detailedError = Some ''No verifiable credentials to tests'',
                     payloadObject = None, did = None, tokensToValidate = None,
                     validationResult = None\<rparr>, net))
       \<and> (itemsOfType q verifiablePresentation = [] \<and> result (getResult q)
            \<and> setValidationResult q = Inr vr' \<longrightarrow>
           conclude b dj q
             = (Inr \<lparr>result = False, status = 403,
                     detailedError = Some ''No presentations to tests'', payloadObject = None,
                     did = None, tokensToValidate = None, validationResult = None\<rparr>, []))"
proof (intro conjI impI)
  assume "verifiablePresentations vr = None"
  with assms show "checkVcsStatus b dj vr net
             = (Inr \<lparr>result = False, status = 403,
                     detailedError = Some ''No presentations to tests'', payloadObject = None,
                     did = None, tokensToValidate = None, validationResult = None\<rparr>, net)"
    by (simp add: checkVcsStatus_def failure_def)
next
  assume "verifiablePresentations vr \<noteq> None \<and> verifiableCredentials vr = None"
  with assms show "checkVcsStatus b dj vr net
             = (Inr \<lparr>result = False, status = 403,
                     detailedError = Some ''No verifiable credentials to tests'',
                     payloadObject = None, did = None, tokensToValidate = None,
                     validationResult = None\<rparr>, net)"
    by (auto simp: checkVcsStatus_def failure_def)
next
  assume h: "itemsOfType q verifiablePresentation = [] \<and> result (getResult q)
            \<and> setValidationResult q = Inr vr'"
  then have "verifiablePresentations vr' = None"
    using setValidationResult_presentations [of q vr'] by (simp add: tokenMap_def)
  with assms h show "conclude b dj q
             = (Inr \<lparr>result = False, status = 403,
                     detailedError = Some ''No presentations to tests'', payloadObject = None,
                     did = None, tokensToValidate = None, validationResult = None\<rparr>, [])"
    by (simp add: conclude_def checkVcsStatus_def failure_def)
qed

theorem checkVcsStatus_nothing_to_test_witness:
  "featureVerifiedCredentialsStatusCheckEnabled (bareBuilder True)
   \<and> itemsOfType (siopQueue siopIssuance) verifiablePresentation = []
   \<and> result (getResult (siopQueue siopIssuance))
   \<and> conclude (bareBuilder True) (tableDecoder []) (siopQueue siopIssuance)
        = (Inr \<lparr>result = False, status = 403,
                detailedError = Some ''No presentations to tests'', payloadObject = None,
                did = None, tokensToValidate = None, validationResult = None\<rparr>, [])"
  using checkVcsStatus_nothing_to_test [where b = "bareBuilder True" and dj = "tableDecoder []"
      and q = "siopQueue siopIssuance"
      and vr' = "\<lparr>vr_did = Some (JStr ''did:test:user''),
        vr_contract = Some (JStr ''https://issuer.example/contracts/test''),
        siopJti = Some (JStr ''jti-1''), idTokens = None,
        verifiableCredentials = None, verifiablePresentations = None,
        vr_selfIssued = None,
        vr_siop = Some \<lparr>type = siopIssuance, rawToken = ''h.p.sig'', tokenHeader = JObj [],
                        decodedToken = siopPayload, configuration = []\<rparr>,
        vr_verifiablePresentationStatus = None\<rparr>"]
  by (simp add: bareBuilder_def siopQueue_def setValidationResult_def siopItems_def isSiop_def
      itemsOfType_def responseDid_def success_def payloadProperty_def getProp_def tokenAud_def
      siopPayload_def getResult_def List.map_filter_def tokenMap_def)

text \<open>
  C10 as stated fails for a validation result that has the two fields and no token in
  them: the empty maps pass both tests, no presentation is checked, and
  \<open>checkVcsStatus\<close> returns the success with an empty status map.
\<close>

theorem checkVcsStatus_empty_maps_counterexample:
  "featureVerifiedCredentialsStatusCheckEnabled (bareBuilder True)
   \<and> checkVcsStatus (bareBuilder True) (tableDecoder [])
        \<lparr>vr_did = Some (JStr ''did:test:user''), vr_contract = Some (JStr []),
         siopJti = Some (JStr []), idTokens = None, verifiableCredentials = Some [],
         verifiablePresentations = Some [], vr_selfIssued = None, vr_siop = None,
         vr_verifiablePresentationStatus = None\<rparr> []
     = (Inr \<lparr>result = True, status = 200, detailedError = None, payloadObject = None,
               did = None, tokensToValidate = None,
               validationResult = Some \<lparr>vr_did = None, vr_contract = None, siopJti = None,
                 idTokens = None, verifiableCredentials = None, verifiablePresentations = None,
                 vr_selfIssued = None, vr_siop = None,
                 vr_verifiablePresentationStatus = Some []\<rparr>\<rparr>, [])"
  by (simp add: checkVcsStatus_def bareBuilder_def statusSuccess_def success_def)

section \<open>The assembled validation result\<close>

lemmas run_defs =
  Validator_validate_def enqueueToken_def body_def getClaimToken_def create_def
  getTokenPayload_def getProp_def tableDecoder_def tableFn_def TOKEN_SI_ISS_def
  ClaimToken_new_def tokentypeValues_def decode_def siopBuilder_def bareBuilder_def
  dispatch_def SiopTokenValidator_validate_def verdict_def holderVerdict_def success_def
  getTokens_def ATTESTATIONS_def PRESENTATION_SUBMISSION_def
  getClaimTokensFromPresentationExchange_def getClaimTokensFromAttestations_def
  descriptorMap_def enqueueTokens_def validateReplayProtection_def replayBlock_def
  saveResult_def setResult_def getNextToken_def conclude_def getResult_def
  List.map_filter_def setValidationResult_def siopItems_def isSiop_def itemsOfType_def
  responseDid_def payloadProperty_def tokenAud_def tokenMap_def checkVcsStatus_def
  exchangeSiop_def attestationSiop_def

text \<open>
  C5 at a presentation-exchange SIOP. \<open>isSiop\<close> names \<open>siopIssuance\<close> and
  \<open>siopPresentationAttestation\<close> only. In a run on a presentation-exchange SIOP whose
  validator answers with the DID of the holder and whose payload carries a \<open>jti\<close>, the
  validated item is therefore not found when the result is assembled: \<open>did\<close> and
  \<open>siopJti\<close> come out empty and \<open>siop\<close> is not set. The same run on a payload that
  differs only in being of the attestation flavour gives the DID of the response and the
  \<open>jti\<close> of the payload.
\<close>

theorem setValidationResult_misses_presentation_exchange:
  "fst (Validator_validate (Suc 0) (siopBuilder exchangeSiop)
        (tableDecoder [(''h'', JObj []), (''p'', exchangeSiop)])
        (tableFn (TypeError ''Invalid URL'') []) (tableFn (Error ''URI malformed'') [])
        ''h.p.sig'')
     = Return \<lparr>result = True, status = 200, detailedError = None, payloadObject = None,
         did = None, tokensToValidate = None,
         validationResult = Some \<lparr>vr_did = Some (JStr []), vr_contract = Some (JStr []),
           siopJti = Some (JStr []), idTokens = None,
           verifiableCredentials = None, verifiablePresentations = None,
           vr_selfIssued = None, vr_siop = None,
           vr_verifiablePresentationStatus = None\<rparr>\<rparr>
   \<and> fst (Validator_validate (Suc 0) (siopBuilder attestationSiop)
        (tableDecoder [(''h'', JObj []), (''p'', attestationSiop)])
        (tableFn (TypeError ''Invalid URL'') []) (tableFn (Error ''URI malformed'') [])
        ''h.p.sig'')
     = Return \<lparr>result = True, status = 200, detailedError = None, payloadObject = None,
         did = None, tokensToValidate = None,
         validationResult = Some \<lparr>vr_did = Some (JStr ''did:test:user''),
           vr_contract = Some (JStr []),
           siopJti = Some (JStr ''jti-1''), idTokens = None,
           verifiableCredentials = None, verifiablePresentations = None,
           vr_selfIssued = None,
           vr_siop = Some \<lparr>type = siopPresentationAttestation, rawToken = ''h.p.sig'',
                           tokenHeader = JObj [], decodedToken = attestationSiop,
                           configuration = []\<rparr>,
           vr_verifiablePresentationStatus = None\<rparr>\<rparr>"
  by (simp add: run_defs)

section \<open>Replay protection\<close>

lemma js_includes_mid: "js_includes (a @ t @ b) t"
proof (induction a)
  case Nil
  show ?case
  proof (cases "t @ b")
    case Nil
    then show ?thesis by simp
  next
    case (Cons x xs)
    then have "prefix t (x # xs)" by (metis prefixI)
    with Cons show ?thesis by simp
  qed
next
  case (Cons x a)
  then show ?case by simp
qed

lemma replayMessage_names_both:
  "js_includes (replayMessage name e shown) e \<and> js_includes (replayMessage name e shown) shown"
  using js_includes_mid [of "''Expect '' @ name @ '' '' @ quote" e
          "quote @ '' does not match '' @ quote @ shown @ quote @ ''.''"]
        js_includes_mid [of "''Expect '' @ name @ '' '' @ quote @ e @ quote @ '' does not match '' @ quote"
          shown "quote @ ''.''"]
  by (simp add: replayMessage_def)

lemma replayBlock_unset:
  "expected = None \<or> expected = Some [] \<Longrightarrow> replayBlock name expected response = Inr None"
  by (auto simp: replayBlock_def)

lemma replayBlock_checked:
  assumes "payloadObject response = Some p" "p \<noteq> JNull" "e \<noteq> []"
  shows "replayBlock name (Some e) response =
           (if field p name \<noteq> Some (JStr e)
            then (case template (field p name) of
                    Inl err \<Rightarrow> Inl err
                  | Inr shown \<Rightarrow> Inr (Some (failure 403 (Some (replayMessage name e shown)))))
            else Inr None)"
  using assms by (simp add: replayBlock_def getProp_def)

lemma nonce_mismatch_403:
  assumes "payloadObject response = Some p" "p \<noteq> JNull"
      and "nonce expected = Some n" "n \<noteq> []" "field p ''nonce'' \<noteq> Some (JStr n)"
      and "template (field p ''nonce'') = Inr shown"
  shows "validateReplayProtection expected response
           = Inr (failure 403 (Some (replayMessage ''nonce'' n shown)))"
  using assms replayBlock_checked [OF assms(1,2,4), of "''nonce''"]
  by (simp add: validateReplayProtection_def)

lemma nonce_passes:
  assumes "payloadObject response = Some p" "p \<noteq> JNull"
      and "nonce expected = None \<or> nonce expected = Some []
           \<or> field p ''nonce'' = map_option JStr (nonce expected)"
  shows "replayBlock ''nonce'' (nonce expected) response = Inr None"
proof (cases "nonce expected = None \<or> nonce expected = Some []")
  case True
  then show ?thesis by (rule replayBlock_unset)
next
  case False
  then obtain e where e: "nonce expected = Some e" "e \<noteq> []" by auto
  with assms(3) False have "field p ''nonce'' = Some (JStr e)" by auto
  with e show ?thesis using replayBlock_checked [OF assms(1,2), of e "''nonce''"] by simp
qed

lemma state_mismatch_403:
  assumes "payloadObject response = Some p" "p \<noteq> JNull"
      and "nonce expected = None \<or> nonce expected = Some []
           \<or> field p ''nonce'' = map_option JStr (nonce expected)"
      and "state expected = Some s" "s \<noteq> []" "field p ''state'' \<noteq> Some (JStr s)"
      and "template (field p ''state'') = Inr shown"
  shows "validateReplayProtection expected response
           = Inr (failure 403 (Some (replayMessage ''state'' s shown)))"
  using assms(4-7) nonce_passes [OF assms(1-3)] replayBlock_checked [OF assms(1,2,5), of "''state''"]
  by (simp add: validateReplayProtection_def)

text \<open>
  C3, as the code has it. On a response that carries a payload object: when the expected
  nonce is set to a non-empty string and the payload's \<open>nonce\<close> is not strictly equal to
  it and can be printed, \<open>validateReplayProtection\<close> returns \<open>result\<close> false with
  \<open>status\<close> 403 and a \<open>detailedError\<close> that contains the expected and the actual
  nonce; when the nonce check passes (no expected nonce, an empty one, or an equal one),
  the expected state is set to a non-empty string and the payload's \<open>state\<close> differs and
  can be printed, it returns 403 with the expected and the actual state. The nonce is
  checked first, so when both differ the error is the one of the nonce. An expected
  value that is undefined or the empty string is not checked: with neither set, the
  response is returned as it is.
\<close>

theorem validateReplayProtection_mismatch:
  assumes "payloadObject response = Some p" and "p \<noteq> JNull"
  shows "(nonce expected = Some n \<and> n \<noteq> [] \<and> field p ''nonce'' \<noteq> Some (JStr n)
          \<and> template (field p ''nonce'') = Inr shown \<longrightarrow>
            validateReplayProtection expected response
              = Inr \<lparr>result = False, status = 403,
                     detailedError = Some (''Expect nonce '' @ quote @ n @ quote @ '' does not match ''
                                           @ quote @ shown @ quote @ ''.''),
                     payloadObject = None, did = None, tokensToValidate = None,
                     validationResult = None\<rparr>
            \<and> js_includes (''Expect nonce '' @ quote @ n @ quote @ '' does not match ''
                             @ quote @ shown @ quote @ ''.'') n
            \<and> js_includes (''Expect nonce '' @ quote @ n @ quote @ '' does not match ''
                             @ quote @ shown @ quote @ ''.'') shown)
       \<and> ((nonce expected = None \<or> nonce expected = Some []
             \<or> field p ''nonce'' = map_option JStr (nonce expected))
           \<and> state expected = Some s \<and> s \<noteq> [] \<and> field p ''state'' \<noteq> Some (JStr s)
           \<and> template (field p ''state'') = Inr shown \<longrightarrow>
            validateReplayProtection expected response
              = Inr \<lparr>result = False, status = 403,
                     detailedError = Some (''Expect state '' @ quote @ s @ quote @ '' does not match ''
                                           @ quote @ shown @ quote @ ''.''),
                     payloadObject = None, did = None, tokensToValidate = None,
                     validationResult = None\<rparr>
            \<and> js_includes (''Expect state '' @ quote @ s @ quote @ '' does not match ''
                             @ quote @ shown @ quote @ ''.'') s
            \<and> js_includes (''Expect state '' @ quote @ s @ quote @ '' does not match ''
                             @ quote @ shown @ quote @ ''.'') shown)
       \<and> ((nonce expected = None \<or> nonce expected = Some [])
           \<and> (state expected = None \<or> state expected = Some []) \<longrightarrow>
            validateReplayProtection expected response = Inr response)"
proof (intro conjI impI)
  assume h: "nonce expected = Some n \<and> n \<noteq> [] \<and> field p ''nonce'' \<noteq> Some (JStr n)
          \<and> template (field p ''nonce'') = Inr shown"
  then show "validateReplayProtection expected response
              = Inr \<lparr>result = False, status = 403,
                     detailedError = Some (''Expect nonce '' @ quote @ n @ quote @ '' does not match ''
                                           @ quote @ shown @ quote @ ''.''),
                     payloadObject = None, did = None, tokensToValidate = None,
                     validationResult = None\<rparr>"
    using nonce_mismatch_403 [OF assms, of expected n shown]
    by (simp add: failure_def replayMessage_def)
next
  show "js_includes (''Expect nonce '' @ quote @ n @ quote @ '' does not match ''
                             @ quote @ shown @ quote @ ''.'') n"
    using replayMessage_names_both [of "''nonce''" n shown] by (simp add: replayMessage_def)
next
  show "js_includes (''Expect nonce '' @ quote @ n @ quote @ '' does not match ''
                             @ quote @ shown @ quote @ ''.'') shown"
    using replayMessage_names_both [of "''nonce''" n shown] by (simp add: replayMessage_def)
next
  assume h: "(nonce expected = None \<or> nonce expected = Some []
             \<or> field p ''nonce'' = map_option JStr (nonce expected))
           \<and> state expected = Some s \<and> s \<noteq> [] \<and> field p ''state'' \<noteq> Some (JStr s)
           \<and> template (field p ''state'') = Inr shown"
  then show "validateReplayProtection expected response
              = Inr \<lparr>result = False, status = 403,
                     detailedError = Some (''Expect state '' @ quote @ s @ quote @ '' does not match ''
                                           @ quote @ shown @ quote @ ''.''),
                     payloadObject = None, did = None, tokensToValidate = None,
                     validationResult = None\<rparr>"
    using state_mismatch_403 [OF assms, of expected s shown]
    by (simp add: failure_def replayMessage_def)
next
  show "js_includes (''Expect state '' @ quote @ s @ quote @ '' does not match ''
                             @ quote @ shown @ quote @ ''.'') s"
    using replayMessage_names_both [of "''state''" s shown] by (simp add: replayMessage_def)
next
  show "js_includes (''Expect state '' @ quote @ s @ quote @ '' does not match ''
                             @ quote @ shown @ quote @ ''.'') shown"
    using replayMessage_names_both [of "''state''" s shown] by (simp add: replayMessage_def)
next
  assume "(nonce expected = None \<or> nonce expected = Some [])
           \<and> (state expected = None \<or> state expected = Some [])"
  then show "validateReplayProtection expected response = Inr response"
    using replayBlock_unset [of "nonce expected" "''nonce''" response]
          replayBlock_unset [of "state expected" "''state''" response]
    by (simp add: validateReplayProtection_def)
qed

theorem validateReplayProtection_mismatch_witness:
  "validateReplayProtection \<lparr>nonce = Some ''abc'', state = None\<rparr>
     (success\<lparr>payloadObject := Some (JObj [(''nonce'', JStr ''xyz'')])\<rparr>)
     = Inr \<lparr>result = False, status = 403,
            detailedError = Some ''Expect nonce 'abc' does not match 'xyz'.'',
            payloadObject = None, did = None, tokensToValidate = None, validationResult = None\<rparr>
   \<and> validateReplayProtection \<lparr>nonce = Some ''abc'', state = Some ''S-1''\<rparr>
     (success\<lparr>payloadObject := Some (JObj [(''nonce'', JStr ''abc'')])\<rparr>)
     = Inr \<lparr>result = False, status = 403,
            detailedError = Some ''Expect state 'S-1' does not match 'undefined'.'',
            payloadObject = None, did = None, tokensToValidate = None, validationResult = None\<rparr>"
  using validateReplayProtection_mismatch [where
          response = "success\<lparr>payloadObject := Some (JObj [(''nonce'', JStr ''xyz'')])\<rparr>"
          and p = "JObj [(''nonce'', JStr ''xyz'')]"
          and expected = "\<lparr>nonce = Some ''abc'', state = None\<rparr>" and n = "''abc''"
          and shown = "''xyz''"]
        validateReplayProtection_mismatch [where
          response = "success\<lparr>payloadObject := Some (JObj [(''nonce'', JStr ''abc'')])\<rparr>"
          and p = "JObj [(''nonce'', JStr ''abc'')]"
          and expected = "\<lparr>nonce = Some ''abc'', state = Some ''S-1''\<rparr>"
          and s = "''S-1''" and shown = "''undefined''"]
  by (simp add: quote_def success_def)

text \<open>
  C3 as stated fails. An expected nonce set to the empty string is not checked: the
  response is returned unchanged although the payload's nonce differs. With both the
  nonce and the state set and both differing from the payload, the 403 response names
  the two nonces and neither the expected nor the actual state. And a payload nonce
  that cannot be printed, an object with a property \<open>toString\<close>, makes the check throw
  instead of returning 403.
\<close>

theorem validateReplayProtection_counterexample:
  "validateReplayProtection \<lparr>nonce = Some [], state = None\<rparr>
     (success\<lparr>payloadObject := Some (JObj [(''nonce'', JStr ''xyz'')])\<rparr>)
     = Inr (success\<lparr>payloadObject := Some (JObj [(''nonce'', JStr ''xyz'')])\<rparr>)
   \<and> validateReplayProtection \<lparr>nonce = Some ''abc'', state = Some ''S-1''\<rparr>
     (success\<lparr>payloadObject := Some (JObj [(''nonce'', JStr ''xyz''), (''state'', JStr ''S-2'')])\<rparr>)
     = Inr \<lparr>result = False, status = 403,
            detailedError = Some ''Expect nonce 'abc' does not match 'xyz'.'',
            payloadObject = None, did = None, tokensToValidate = None, validationResult = None\<rparr>
   \<and> \<not> js_includes ''Expect nonce 'abc' does not match 'xyz'.'' ''S-1''
   \<and> \<not> js_includes ''Expect nonce 'abc' does not match 'xyz'.'' ''S-2''
   \<and> validateReplayProtection \<lparr>nonce = Some ''abc'', state = None\<rparr>
     (success\<lparr>payloadObject := Some (JObj [(''nonce'', JObj [(''toString'', JNum ''1'')])])\<rparr>)
     = Inl (TypeError ''Cannot convert object to primitive value'')"
  by (simp add: validateReplayProtection_def replayBlock_def getProp_def replayMessage_def
      quote_def success_def failure_def)

section \<open>A token without a registered validator\<close>

text \<open>
  C7. Whenever the loop of \<open>Validator.validate\<close> takes up a queue item whose token is
  classified to a type with no registered validator, \<open>validate\<close> returns at once
  \<open>result\<close> false, \<open>status\<close> 500 and the \<open>detailedError\<close>
  \<open><type> does not has a TokenValidator\<close>: the token is only added to the tracked
  tokens, no validator is called and the queue is left as it was, so neither this item
  nor a later one is validated. This holds at every state of the loop and for every
  positive amount of fuel.
\<close>

theorem validate_missing_validator:
  assumes "getClaimToken dj (queue st ! n) = Inr t" and "tokenValidators b (type t) = None"
  shows "validateLoop (Suc fuel) b dj pathname decodeURI n st
           = (Return \<lparr>result = False, status = 500,
                      detailedError = Some (typeName (type t) @ '' does not has a TokenValidator''),
                      payloadObject = None, did = None, tokensToValidate = None,
                      validationResult = None\<rparr>,
              st\<lparr>trackedTokens := trackedTokens st @ [t]\<rparr>)
       \<and> calls (snd (validateLoop (Suc fuel) b dj pathname decodeURI n st)) = calls st
       \<and> queue (snd (validateLoop (Suc fuel) b dj pathname decodeURI n st)) = queue st"
  using assms by (simp add: body_def failure_def)

theorem validate_missing_validator_witness:
  "getClaimToken (tableDecoder [(''h'', JObj []), (''p'', JObj [(''vc'', JObj [])])])
     (enqueueToken [] ''siop'' ''h.p.sig'' ! 0)
     = Inr \<lparr>type = verifiableCredential, rawToken = ''h.p.sig'', tokenHeader = JObj [],
            decodedToken = JObj [(''vc'', JObj [])], configuration = []\<rparr>
   \<and> tokenValidators (bareBuilder False) verifiableCredential = None
   \<and> Validator_validate (Suc 0) (bareBuilder False)
        (tableDecoder [(''h'', JObj []), (''p'', JObj [(''vc'', JObj [])])])
        (tableFn (TypeError ''Invalid URL'') []) (tableFn (Error ''URI malformed'') [])
        ''h.p.sig''
     = (Return \<lparr>result = False, status = 500,
                detailedError = Some ''verifiableCredential does not has a TokenValidator'',
                payloadObject = None, did = None, tokensToValidate = None,
                validationResult = None\<rparr>,
        \<lparr>queue = enqueueToken [] ''siop'' ''h.p.sig'', siopDid = None, siopContractId = None,
         trackedTokens = [\<lparr>type = verifiableCredential, rawToken = ''h.p.sig'', tokenHeader = JObj [],
            decodedToken = JObj [(''vc'', JObj [])], configuration = []\<rparr>], calls = []\<rparr>,
        [])"
proof -
  have c: "getClaimToken (tableDecoder [(''h'', JObj []), (''p'', JObj [(''vc'', JObj [])])])
     (enqueueToken [] ''siop'' ''h.p.sig'' ! 0)
     = Inr \<lparr>type = verifiableCredential, rawToken = ''h.p.sig'', tokenHeader = JObj [],
            decodedToken = JObj [(''vc'', JObj [])], configuration = []\<rparr>"
    by (simp add: getClaimToken_def enqueueToken_def create_def getTokenPayload_def getProp_def
        tableDecoder_def tableFn_def TOKEN_SI_ISS_def ClaimToken_new_def tokentypeValues_def
        decode_def)
  have v: "tokenValidators (bareBuilder False) verifiableCredential = None"
    by (simp add: bareBuilder_def)
  show ?thesis
    using c v validate_missing_validator [of
        "tableDecoder [(''h'', JObj []), (''p'', JObj [(''vc'', JObj [])])]"
        "\<lparr>queue = enqueueToken [] ''siop'' ''h.p.sig'', siopDid = None, siopContractId = None,
          trackedTokens = [], calls = []\<rparr>" 0
        "\<lparr>type = verifiableCredential, rawToken = ''h.p.sig'', tokenHeader = JObj [],
            decodedToken = JObj [(''vc'', JObj [])], configuration = []\<rparr>"
        "bareBuilder False" 0 "tableFn (TypeError ''Invalid URL'') []"
        "tableFn (Error ''URI malformed'') []"]
    by (simp add: Validator_validate_def del: validateLoop.simps)
qed

section \<open>Children of a SIOP and the replay check\<close>












section \<open>Tokens of a presentation exchange\<close>

text \<open>The loop over a descriptor map that is split in two, and what \<open>put\<close> stores.\<close>

lemma descriptorLoop_append:
  "descriptorLoop dj jq payload (pre @ xs) acc
     = (case descriptorLoop dj jq payload pre acc of
          Inl e \<Rightarrow> Inl e
        | Inr acc' \<Rightarrow> descriptorLoop dj jq payload xs acc')"
  by (induction pre arbitrary: acc) (auto split: sum.splits)

lemma map_of_insertIndex:
  "map_of m k = None \<Longrightarrow> map_of (insertIndex n k v m) k = Some v"
  by (induction m) (auto split: option.splits)

lemma map_of_put: "map_of (put k v m) k = Some v"
  by (cases "arrayIndex k") (auto simp: put_def map_of_insertIndex update_conv' map_add_def)

lemma msgWithId_names_id: "js_includes (msgWithId si @ z) si"
  using js_includes_mid
    [of "''The SIOP presentation exchange response has descriptor_map with id '' @ quote"
        si "quote @ ''.'' @ z"]
  by (simp add: msgWithId_def)

lemma msgNoPath_ends: "suffix ''No path property found.'' (msgNoPath si)"
proof -
  have "msgNoPath si = (msgWithId si @ '' '') @ ''No path property found.''"
    by (simp add: msgNoPath_def)
  then show ?thesis by (metis suffixI)
qed

lemma msgNoToken_says: "js_includes (msgNoToken si sp) ''did not return a token''"
  using js_includes_mid
    [of "msgWithId si @ '' This path '' @ quote @ sp @ quote @ '' ''"
        "''did not return a token''" "''.''"]
  by (simp add: msgNoToken_def)

lemma msgMultiple_says: "js_includes (msgMultiple si sp) ''points to multiple credentails''"
  using js_includes_mid
    [of "msgWithId si @ '' This path '' @ quote @ sp @ quote @ '' ''"
        "''points to multiple credentails''" "'' and should only point to one credential.''"]
  by (simp add: msgMultiple_def)

lemmas exchange_defs =
  descriptorMap_def exchangePayload_def tablePath_def msgNoPath_def msgNoToken_def
  msgWithId_def quote_def descriptorStep_def put_def assign_def arrayIndex_def create_def
  getTokenPayload_def getProp_def tableDecoder_def tableFn_def TOKEN_SI_ISS_def
  ClaimToken_new_def tokentypeValues_def decode_def

text \<open>
  C4, as the code has it. \<open>getClaimTokensFromPresentationExchange\<close> goes through the
  entries of the descriptor map in order and fails at the first entry that fails; an
  entry that is falsy is passed over. For a truthy entry reached without failure:
  without a truthy \<open>id\<close> it fails with the message that the descriptor map has no \<open>id\<close>
  property; with a truthy \<open>id\<close> that prints as \<open>si\<close> and no truthy \<open>path\<close> it fails with a
  message that names the id and ends in \<open>No path property found.\<close>; with both, the path
  is a JSON-path query on the whole payload, and, the path printing as \<open>sp\<close>, no match
  fails with a message naming the id and that the path did not return a token, and more
  than one match fails with a message naming the id and that the path points to multiple
  credentials; a single string is classified by \<open>create\<close> and, the id not being
  \<open>__proto__\<close>, stored under the printed id (or the exception of \<open>create\<close> is the
  failure); and a single match that is not a string is passed over without a failure
  and without a token.
\<close>

theorem presentation_exchange_entry:
  assumes "descriptorMap payload = pre @ item # post"
      and "descriptorLoop dj jq payload pre [] = Inr acc"
  shows "(\<not> truthy (Some item) \<longrightarrow>
            getClaimTokensFromPresentationExchange dj jq payload
              = descriptorLoop dj jq payload post acc)
       \<and> (truthy (Some item) \<and> \<not> truthy (field item ''id'') \<longrightarrow>
            getClaimTokensFromPresentationExchange dj jq payload = Inl (Error msgNoId))
       \<and> (truthy (Some item) \<and> field item ''id'' = Some i \<and> truthy (Some i)
           \<and> toString i = Inr si \<longrightarrow>
            (\<not> truthy (field item ''path'') \<longrightarrow>
               getClaimTokensFromPresentationExchange dj jq payload = Inl (Error (msgNoPath si))
               \<and> suffix ''No path property found.'' (msgNoPath si)
               \<and> js_includes (msgNoPath si) si)
          \<and> (field item ''path'' = Some path \<and> truthy (Some path) \<longrightarrow>
               (jq payload path = Inr [] \<and> toString path = Inr sp \<longrightarrow>
                  getClaimTokensFromPresentationExchange dj jq payload
                    = Inl (Error (msgNoToken si sp))
                  \<and> js_includes (msgNoToken si sp) si
                  \<and> js_includes (msgNoToken si sp) ''did not return a token'')
             \<and> (jq payload path = Inr ms \<and> 1 < length ms \<and> toString path = Inr sp \<longrightarrow>
                  getClaimTokensFromPresentationExchange dj jq payload
                    = Inl (Error (msgMultiple si sp))
                  \<and> js_includes (msgMultiple si sp) si
                  \<and> js_includes (msgMultiple si sp) ''points to multiple credentails'')
             \<and> (jq payload path = Inr [JStr tok] \<and> si \<noteq> ''__proto__'' \<longrightarrow>
                  getClaimTokensFromPresentationExchange dj jq payload
                    = (case create dj tok of
                         Inl e \<Rightarrow> Inl e
                       | Inr t \<Rightarrow> descriptorLoop dj jq payload post (put si t acc))
                  \<and> map_of (put si t acc) si = Some t)
             \<and> (jq payload path = Inr [v] \<and> (\<forall>s. v \<noteq> JStr s) \<longrightarrow>
                  getClaimTokensFromPresentationExchange dj jq payload
                    = descriptorLoop dj jq payload post acc)))"
proof -
  have G: "getClaimTokensFromPresentationExchange dj jq payload
      = (case descriptorStep dj jq payload item acc of
           Inl e \<Rightarrow> Inl e
         | Inr acc' \<Rightarrow> descriptorLoop dj jq payload post acc')"
    by (simp add: getClaimTokensFromPresentationExchange_def assms(1,2) descriptorLoop_append)
  have falsy: "descriptorStep dj jq payload item acc = Inr acc" if "\<not> truthy (Some item)"
    using that by (simp add: descriptorStep_def)
  have noid: "descriptorStep dj jq payload item acc = Inl (Error msgNoId)"
    if "truthy (Some item)" "\<not> truthy (field item ''id'')"
    using that by (auto simp: descriptorStep_def split: option.splits)
  have nopath: "descriptorStep dj jq payload item acc = Inl (Error (msgNoPath si))"
    if "truthy (Some item)" "field item ''id'' = Some i" "truthy (Some i)" "toString i = Inr si"
       "\<not> truthy (field item ''path'')"
    using that by (auto simp: descriptorStep_def errorWithId_def split: option.splits)
  have single: "descriptorStep dj jq payload item acc
      = (case create dj tok of Inl e \<Rightarrow> Inl e | Inr ct \<Rightarrow> Inr (put si ct acc))"
    if "truthy (Some item)" "field item ''id'' = Some i" "truthy (Some i)" "toString i = Inr si"
       "field item ''path'' = Some path" "truthy (Some path)" "jq payload path = Inr [JStr tok]"
       "si \<noteq> ''__proto__''"
    using that by (simp add: descriptorStep_def assign_def split: sum.splits)
  have other: "descriptorStep dj jq payload item acc = Inr acc"
    if "truthy (Some item)" "field item ''id'' = Some i" "truthy (Some i)" "toString i = Inr si"
       "field item ''path'' = Some path" "truthy (Some path)" "jq payload path = Inr [v]"
       "\<forall>s. v \<noteq> JStr s"
    using that by (cases v) (simp_all add: descriptorStep_def)
  have none: "descriptorStep dj jq payload item acc = Inl (Error (msgNoToken si sp))"
    if "truthy (Some item)" "field item ''id'' = Some i" "truthy (Some i)" "toString i = Inr si"
       "field item ''path'' = Some path" "truthy (Some path)" "jq payload path = Inr []"
       "toString path = Inr sp"
    using that by (simp add: descriptorStep_def errorWithIdPath_def)
  have many: "descriptorStep dj jq payload item acc = Inl (Error (msgMultiple si sp))"
    if "truthy (Some item)" "field item ''id'' = Some i" "truthy (Some i)" "toString i = Inr si"
       "field item ''path'' = Some path" "truthy (Some path)" "jq payload path = Inr ms"
       "1 < length ms" "toString path = Inr sp"
    using that by (cases ms) (simp_all add: descriptorStep_def errorWithIdPath_def)
  show ?thesis
  proof (intro conjI impI)
    assume "\<not> truthy (Some item)"
    then show "getClaimTokensFromPresentationExchange dj jq payload
        = descriptorLoop dj jq payload post acc"
      by (simp add: G falsy)
  next
    assume "truthy (Some item) \<and> \<not> truthy (field item ''id'')"
    then show "getClaimTokensFromPresentationExchange dj jq payload = Inl (Error msgNoId)"
      by (simp add: G noid)
  next
    assume "truthy (Some item) \<and> field item ''id'' = Some i \<and> truthy (Some i)
           \<and> toString i = Inr si" "\<not> truthy (field item ''path'')"
    then show "getClaimTokensFromPresentationExchange dj jq payload = Inl (Error (msgNoPath si))"
      by (simp add: G nopath)
  next
    show "suffix ''No path property found.'' (msgNoPath si)" by (rule msgNoPath_ends)
  next
    show "js_includes (msgNoPath si) si"
      unfolding msgNoPath_def by (rule msgWithId_names_id)
  next
    assume "truthy (Some item) \<and> field item ''id'' = Some i \<and> truthy (Some i)
           \<and> toString i = Inr si"
      "field item ''path'' = Some path \<and> truthy (Some path)"
      "jq payload path = Inr [] \<and> toString path = Inr sp"
    then show "getClaimTokensFromPresentationExchange dj jq payload
        = Inl (Error (msgNoToken si sp))"
      by (simp add: G none)
  next
    show "js_includes (msgNoToken si sp) si"
      unfolding msgNoToken_def by (rule msgWithId_names_id)
  next
    show "js_includes (msgNoToken si sp) ''did not return a token''" by (rule msgNoToken_says)
  next
    assume "truthy (Some item) \<and> field item ''id'' = Some i \<and> truthy (Some i)
           \<and> toString i = Inr si"
      "field item ''path'' = Some path \<and> truthy (Some path)"
      "jq payload path = Inr ms \<and> 1 < length ms \<and> toString path = Inr sp"
    then show "getClaimTokensFromPresentationExchange dj jq payload
        = Inl (Error (msgMultiple si sp))"
      by (simp add: G many)
  next
    show "js_includes (msgMultiple si sp) si"
      unfolding msgMultiple_def by (rule msgWithId_names_id)
  next
    show "js_includes (msgMultiple si sp) ''points to multiple credentails''"
      by (rule msgMultiple_says)
  next
    assume "truthy (Some item) \<and> field item ''id'' = Some i \<and> truthy (Some i)
           \<and> toString i = Inr si"
      "field item ''path'' = Some path \<and> truthy (Some path)"
      "jq payload path = Inr [JStr tok] \<and> si \<noteq> ''__proto__''"
    then show "getClaimTokensFromPresentationExchange dj jq payload
        = (case create dj tok of
             Inl e \<Rightarrow> Inl e
           | Inr t \<Rightarrow> descriptorLoop dj jq payload post (put si t acc))"
      by (simp add: G single split: sum.splits)
  next
    show "map_of (put si t acc) si = Some t" by (rule map_of_put)
  next
    assume "truthy (Some item) \<and> field item ''id'' = Some i \<and> truthy (Some i)
           \<and> toString i = Inr si"
      "field item ''path'' = Some path \<and> truthy (Some path)"
      "jq payload path = Inr [v] \<and> (\<forall>s. v \<noteq> JStr s)"
    then show "getClaimTokensFromPresentationExchange dj jq payload
        = descriptorLoop dj jq payload post acc"
      by (simp add: G other)
  qed
qed


theorem presentation_exchange_entry_witness:
  "descriptorMap (exchangePayload
        [JNull, JObj [(''id'', JStr ''IdentityCard''), (''format'', JStr ''jwt'')]])
     = [JNull] @ JObj [(''id'', JStr ''IdentityCard''), (''format'', JStr ''jwt'')] # []
   \<and> descriptorLoop (tableDecoder []) (tablePath [])
        (exchangePayload [JNull, JObj [(''id'', JStr ''IdentityCard''), (''format'', JStr ''jwt'')]])
        [JNull] [] = Inr []
   \<and> toString (JStr ''IdentityCard'') = Inr ''IdentityCard''
   \<and> getClaimTokensFromPresentationExchange (tableDecoder []) (tablePath [])
        (exchangePayload [JNull, JObj [(''id'', JStr ''IdentityCard''), (''format'', JStr ''jwt'')]])
     = Inl (Error ''The SIOP presentation exchange response has descriptor_map with id 'IdentityCard'. No path property found.'')
   \<and> tablePath []
        (exchangePayload [JObj [(''id'', JStr ''IdentityCard''), (''path'', JStr ''$.tokens.none'')]])
        (JStr ''$.tokens.none'') = Inr []
   \<and> getClaimTokensFromPresentationExchange (tableDecoder []) (tablePath [])
        (exchangePayload [JObj [(''id'', JStr ''IdentityCard''), (''path'', JStr ''$.tokens.none'')]])
     = Inl (Error ''The SIOP presentation exchange response has descriptor_map with id 'IdentityCard'. This path '$.tokens.none' did not return a token.'')
   \<and> tablePath [(JStr ''$.tokens.presentations.IdentityCard'', [JStr ''h.p.sig''])]
        (exchangePayload [JNull, JObj [(''id'', JStr ''IdentityCard''),
                                       (''path'', JStr ''$.tokens.presentations.IdentityCard'')]])
        (JStr ''$.tokens.presentations.IdentityCard'') = Inr [JStr ''h.p.sig'']
   \<and> getClaimTokensFromPresentationExchange
        (tableDecoder [(''h'', JObj []), (''p'', JObj [(''vc'', JObj [])])])
        (tablePath [(JStr ''$.tokens.presentations.IdentityCard'', [JStr ''h.p.sig''])])
        (exchangePayload [JNull, JObj [(''id'', JStr ''IdentityCard''),
                                       (''path'', JStr ''$.tokens.presentations.IdentityCard'')]])
     = Inr [(''IdentityCard'',
             \<lparr>type = verifiableCredential, rawToken = ''h.p.sig'', tokenHeader = JObj [],
                decodedToken = JObj [(''vc'', JObj [])], configuration = []\<rparr>)]
   \<and> \<not> truthy (Some JNull)
   \<and> getClaimTokensFromPresentationExchange (tableDecoder []) (tablePath [])
        (exchangePayload [JNull])
     = Inr []"
  using presentation_exchange_entry [where dj = "tableDecoder []" and jq = "tablePath []"
      and payload = "exchangePayload
          [JNull, JObj [(''id'', JStr ''IdentityCard''), (''format'', JStr ''jwt'')]]"
      and pre = "[JNull]" and post = "[]" and acc = "[]"
      and item = "JObj [(''id'', JStr ''IdentityCard''), (''format'', JStr ''jwt'')]"
      and i = "JStr ''IdentityCard''" and si = "''IdentityCard''"]
    presentation_exchange_entry [where dj = "tableDecoder []" and jq = "tablePath []"
      and payload = "exchangePayload
          [JObj [(''id'', JStr ''IdentityCard''), (''path'', JStr ''$.tokens.none'')]]"
      and pre = "[]" and post = "[]" and acc = "[]"
      and item = "JObj [(''id'', JStr ''IdentityCard''), (''path'', JStr ''$.tokens.none'')]"
      and i = "JStr ''IdentityCard''" and si = "''IdentityCard''"
      and path = "JStr ''$.tokens.none''" and sp = "''$.tokens.none''"]
    presentation_exchange_entry
     [where dj = "tableDecoder [(''h'', JObj []), (''p'', JObj [(''vc'', JObj [])])]"
      and jq = "tablePath [(JStr ''$.tokens.presentations.IdentityCard'', [JStr ''h.p.sig''])]"
      and payload = "exchangePayload [JNull, JObj [(''id'', JStr ''IdentityCard''),
                                       (''path'', JStr ''$.tokens.presentations.IdentityCard'')]]"
      and pre = "[JNull]" and post = "[]" and acc = "[]"
      and item = "JObj [(''id'', JStr ''IdentityCard''),
                        (''path'', JStr ''$.tokens.presentations.IdentityCard'')]"
      and i = "JStr ''IdentityCard''" and si = "''IdentityCard''"
      and path = "JStr ''$.tokens.presentations.IdentityCard''" and tok = "''h.p.sig''"]
    presentation_exchange_entry [where dj = "tableDecoder []" and jq = "tablePath []"
      and payload = "exchangePayload [JNull]"
      and pre = "[]" and post = "[]" and acc = "[]" and item = "JNull"]
  by (simp add: exchange_defs)

text \<open>
  C4 as stated fails: exactly one string result is not required. A path that resolves
  to one object, here the map of presentations, gives no failure and no token.
\<close>

theorem presentation_exchange_object_counterexample:
  "tablePath [(JStr ''$.tokens.presentations'', [JObj [(''IdentityCard'', JStr ''h.p.sig'')]])]
      (exchangePayload [JObj [(''id'', JStr ''IdentityCard''),
                              (''path'', JStr ''$.tokens.presentations'')]])
      (JStr ''$.tokens.presentations'')
     = Inr [JObj [(''IdentityCard'', JStr ''h.p.sig'')]]
   \<and> getClaimTokensFromPresentationExchange (tableDecoder [])
      (tablePath [(JStr ''$.tokens.presentations'', [JObj [(''IdentityCard'', JStr ''h.p.sig'')]])])
      (exchangePayload [JObj [(''id'', JStr ''IdentityCard''),
                              (''path'', JStr ''$.tokens.presentations'')]])
     = Inr []"
  by (simp add: getClaimTokensFromPresentationExchange_def descriptorMap_def exchangePayload_def
      descriptorStep_def tablePath_def)

end
